theory Spec2Isabelle
  imports Main "HOL-Library.FSet" "HOL-Library.Finite_Map"
begin

section \<open>Order book tracker: data model\<close>

text \<open>
  A shallow embedding of \<^verbatim>\<open>hummingbot/core/data_type/order_book_tracker.py\<close>.
  Python dictionaries are finite maps, the event loop's tasks are a table indexed by task
  handle, the body of every \<^verbatim>\<open>while True\<close> loop is a function from the state before one
  iteration to the state after it, and what an \<^verbatim>\<open>await\<close> delivers (a value or an
  exception thrown into the coroutine) is an argument of that function.
\<close>

subsection \<open>Messages and trade events\<close>

text \<open>
  Modelled from the spec: the enum \<^verbatim>\<open>OrderBookMessageType\<close> of \<^verbatim>\<open>order_book_message.py\<close>
  is missing; the spec names the discriminants Diff, Snapshot and Trade.
\<close>

datatype OrderBookMessageType = SNAPSHOT | DIFF | TRADE

text \<open>
  Modelled from the spec: the class \<^verbatim>\<open>OrderBookMessage\<close> is missing; the record has the
  attributes the tracker reads. \<open>'v\<close> is the type of payload values, \<open>'f\<close> of floats.
\<close>

record ('v, 'f) OrderBookMessage =
  type :: OrderBookMessageType
  trading_pair :: string
  update_id :: int
  timestamp :: 'f
  bids :: 'v
  asks :: 'v
  content :: "(string, 'v) fmap"

text \<open>
  Modelled from the spec: \<^verbatim>\<open>TradeType\<close> and \<^verbatim>\<open>OrderBookTradeEvent\<close> of
  \<^verbatim>\<open>hummingbot/core/event/events.py\<close> are missing; the event has the five keyword
  arguments the tracker passes.
\<close>

datatype TradeType = BUY | SELL

record 'f OrderBookTradeEvent =
  ev_trading_pair :: string
  ev_timestamp :: 'f
  ev_price :: 'f
  ev_amount :: 'f
  ev_type :: TradeType

subsection \<open>Exceptions\<close>

datatype exn =
    CancelledError
  | KeyError string
  | OtherException string
  | OtherBaseException string

text \<open>
  \<^verbatim>\<open>isinstance(e, Exception)\<close> for the exceptions that reach an \<^verbatim>\<open>except Exception\<close>
  clause. \<^verbatim>\<open>CancelledError\<close> derives from \<^verbatim>\<open>Exception\<close> up to Python 3.7.
\<close>

fun is_Exception :: "exn \<Rightarrow> bool" where
  "is_Exception CancelledError = True"
| "is_Exception (KeyError k) = True"
| "is_Exception (OtherException n) = True"
| "is_Exception (OtherBaseException n) = False"

text \<open>What an \<^verbatim>\<open>await\<close> hands back to the coroutine.\<close>

datatype 'a awaited = Returned 'a | Threw exn

text \<open>The outcome of a \<^verbatim>\<open>try\<close> body, and of one iteration of a \<^verbatim>\<open>while True\<close> loop.\<close>

datatype 's body = Normal 's | Raise exn 's

datatype 's iteration = Continue 's | Terminated exn 's

subsection \<open>The collaborators outside the tracker\<close>

text \<open>
  The order book class, \<^verbatim>\<open>float()\<close> on a payload value and the clock arithmetic are not
  part of the tracker. They are parameters: \<open>'ob\<close> is the state of an order book, and a
  method returns the book it leaves behind with the exception it raised, if any.
\<close>

record ('ob, 'v, 'f) externals =
  snapshot_uid :: "'ob \<Rightarrow> int"
  apply_diffs :: "'ob \<Rightarrow> 'v \<Rightarrow> 'v \<Rightarrow> int \<Rightarrow> exn option \<times> 'ob"
  restore_from_snapshot_and_diffs ::
    "'ob \<Rightarrow> ('v, 'f) OrderBookMessage \<Rightarrow> ('v, 'f) OrderBookMessage list \<Rightarrow> exn option \<times> 'ob"
  apply_trade :: "'ob \<Rightarrow> 'f OrderBookTradeEvent \<Rightarrow> exn option \<times> 'ob"
  float_of :: "'v \<Rightarrow> exn + 'f"
  eq_sell_value :: "'v \<Rightarrow> bool"
  minute_of :: "'f \<Rightarrow> int"

text \<open>
  \<open>float_of v\<close> is \<^verbatim>\<open>float(v)\<close>, \<open>eq_sell_value v\<close> is
  \<^verbatim>\<open>v == float(TradeType.SELL.value)\<close> and \<open>minute_of t\<close> is \<^verbatim>\<open>int(t / 60.0)\<close>.
\<close>

record 'ob OrderBookTrackerEntry =
  order_book :: 'ob

record OrderBookTrackerDataSource =
  trading_pairs :: "string list option"

subsection \<open>Tasks\<close>

datatype coroutine =
    TrackSingleBook string
  | EmitTradeEventLoop
  | RefreshTrackingLoop
  | OrderBookDiffRouter
  | OrderBookSnapshotRouter
  | Listener string

datatype task_state = Running | CancelRequested | Done

record task =
  coro :: coroutine
  state :: task_state

type_synonym task_handle = nat

text \<open>\<^verbatim>\<open>Task.done()\<close> and \<^verbatim>\<open>Task.cancel()\<close>: cancelling a finished task does nothing.\<close>

definition task_done :: "task list \<Rightarrow> task_handle \<Rightarrow> bool" where
  "task_done ts h = (state (ts ! h) = Done)"

definition task_cancel :: "task_handle \<Rightarrow> task list \<Rightarrow> task list" where
  "task_cancel h ts = (if state (ts ! h) = Done then ts else ts[h := (ts ! h)\<lparr>state := CancelRequested\<rparr>])"

text \<open>\<^verbatim>\<open>safe_ensure_future(coro)\<close>: a new task in the event loop; its handle is returned.\<close>

definition safe_ensure_future :: "coroutine \<Rightarrow> task list \<Rightarrow> task_handle \<times> task list" where
  "safe_ensure_future c ts = (length ts, ts @ [\<lparr>coro = c, state = Running\<rparr>])"

subsection \<open>The tracker\<close>

datatype log_record =
    StartedTracking string
  | StoppedTracking string
  | DiffMessagesProcessed int int
  | ProcessedDiffs int string
  | ProcessedSnapshot string
  | TradeMessagesProcessed int int
  | UnknownError
  | UnexpectedErrorRouting

record ('ob, 'v, 'f) OrderBookTracker =
  tracking_tasks :: "(string, task_handle) fmap"
  order_books :: "(string, 'ob) fmap"
  tracking_message_queues :: "(string, ('v, 'f) OrderBookMessage list) fmap"
  past_diffs_windows :: "(string, ('v, 'f) OrderBookMessage list) fmap"
  order_book_diff_listener_task :: "task_handle option"
  order_book_trade_listener_task :: "task_handle option"
  order_book_snapshot_listener_task :: "task_handle option"
  order_book_diff_router_task :: "task_handle option"
  order_book_snapshot_router_task :: "task_handle option"
  emit_trade_event_task :: "task_handle option"
  refresh_tracking_task :: "task_handle option"
  ev_tasks :: "task list"
  log :: "log_record list"

definition PAST_DIFF_WINDOW_SIZE :: nat where
  "PAST_DIFF_WINDOW_SIZE = 32"

text \<open>\<^verbatim>\<open>len(d)\<close> of a dictionary.\<close>

definition len_dict :: "('k, 'a) fmap \<Rightarrow> nat" where
  "len_dict d = fcard (fmdom d)"

text \<open>\<^verbatim>\<open>x or []\<close> for an optional list.\<close>

fun or_empty :: "'a list option \<Rightarrow> 'a list" where
  "or_empty None = []"
| "or_empty (Some xs) = xs"

definition ready :: "OrderBookTrackerDataSource \<Rightarrow> ('ob, 'v, 'f) OrderBookTracker \<Rightarrow> bool" where
  "ready data_source self =
     (let tps = or_empty (trading_pairs data_source)
      in length tps \<le> len_dict (order_books self) \<and> len_dict (order_books self) > 0)"

subsection \<open>The exception handlers of the loops\<close>

text \<open>
  Every loop ends its \<^verbatim>\<open>try\<close> with the same two clauses, tried in this order:
  \<^verbatim>\<open>except asyncio.CancelledError: raise\<close>, then \<^verbatim>\<open>except Exception:\<close> which logs and
  awaits \<^verbatim>\<open>asyncio.sleep(5.0)\<close>. \<open>slept\<close> is what that sleep delivers: an exception
  thrown into it leaves the handler and the loop. An exception that matches neither
  clause leaves the loop as well.
\<close>

definition except_clauses ::
  "log_record \<Rightarrow> (log_record \<Rightarrow> 's \<Rightarrow> 's) \<Rightarrow> unit awaited \<Rightarrow> exn \<Rightarrow> 's \<Rightarrow> 's iteration" where
  "except_clauses r logger slept e s =
     (if e = CancelledError then Terminated e s
      else if is_Exception e then
        (case slept of
           Returned u \<Rightarrow> Continue (logger r s)
         | Threw e' \<Rightarrow> Terminated e' (logger r s))
      else Terminated e s)"

definition loop_iteration ::
  "log_record \<Rightarrow> (log_record \<Rightarrow> 's \<Rightarrow> 's) \<Rightarrow> unit awaited \<Rightarrow> 's body \<Rightarrow> 's iteration" where
  "loop_iteration r logger slept b =
     (case b of
        Normal s \<Rightarrow> Continue s
      | Raise e s \<Rightarrow> except_clauses r logger slept e s)"

definition logger :: "log_record \<Rightarrow> ('ob, 'v, 'f) OrderBookTracker \<Rightarrow> ('ob, 'v, 'f) OrderBookTracker" where
  "logger r self = self\<lparr>log := log self @ [r]\<rparr>"

subsection \<open>start and stop\<close>

definition start :: "('ob, 'v, 'f) OrderBookTracker \<Rightarrow> ('ob, 'v, 'f) OrderBookTracker" where
  "start self =
     (case safe_ensure_future EmitTradeEventLoop (ev_tasks self) of
        (h, ts) \<Rightarrow> self\<lparr>ev_tasks := ts, emit_trade_event_task := Some h\<rparr>)"

definition stop :: "('ob, 'v, 'f) OrderBookTracker \<Rightarrow> ('ob, 'v, 'f) OrderBookTracker" where
  "stop self =
     (let s1 = (case emit_trade_event_task self of
                  None \<Rightarrow> self
                | Some t \<Rightarrow> self\<lparr>ev_tasks := task_cancel t (ev_tasks self),
                                 emit_trade_event_task := None\<rparr>);
          s2 = (case order_book_diff_listener_task s1 of
                  None \<Rightarrow> s1
                | Some t \<Rightarrow> s1\<lparr>ev_tasks := task_cancel t (ev_tasks s1),
                               order_book_diff_listener_task := None\<rparr>);
          s3 = (case order_book_snapshot_listener_task s2 of
                  None \<Rightarrow> s2
                | Some t \<Rightarrow> s2\<lparr>ev_tasks := task_cancel t (ev_tasks s2),
                               order_book_snapshot_listener_task := None\<rparr>);
          s4 = (case refresh_tracking_task s3 of
                  None \<Rightarrow> s3
                | Some t \<Rightarrow> s3\<lparr>ev_tasks := task_cancel t (ev_tasks s3),
                               refresh_tracking_task := None\<rparr>);
          s5 = (case order_book_diff_router_task s4 of
                  None \<Rightarrow> s4
                | Some t \<Rightarrow> s4\<lparr>ev_tasks := task_cancel t (ev_tasks s4),
                               order_book_diff_router_task := None\<rparr>)
      in (case order_book_snapshot_router_task s5 of
            None \<Rightarrow> s5
          | Some t \<Rightarrow> s5\<lparr>ev_tasks := task_cancel t (ev_tasks s5),
                         order_book_snapshot_router_task := None\<rparr>))"

subsection \<open>Refreshing the tracked set\<close>

text \<open>The keys of \<^verbatim>\<open>_tracking_tasks\<close> whose task is not done.\<close>

definition tracking_trading_pairs :: "('ob, 'v, 'f) OrderBookTracker \<Rightarrow> string fset" where
  "tracking_trading_pairs self =
     ffilter (\<lambda>key. case fmlookup (tracking_tasks self) key of
                       None \<Rightarrow> False
                     | Some h \<Rightarrow> \<not> task_done (ev_tasks self) h)
             (fmdom (tracking_tasks self))"

text \<open>The first \<^verbatim>\<open>for\<close> loop of \<^verbatim>\<open>_refresh_tracking_tasks\<close>, over the new trading pairs.\<close>

fun start_tracking ::
  "(string, 'ob OrderBookTrackerEntry) fmap \<Rightarrow> string list \<Rightarrow> ('ob, 'v, 'f) OrderBookTracker
   \<Rightarrow> ('ob, 'v, 'f) OrderBookTracker body" where
  "start_tracking available_pairs [] self = Normal self"
| "start_tracking available_pairs (tp # rest) self =
     (case fmlookup available_pairs tp of
        None \<Rightarrow> Raise (KeyError tp) self
      | Some entry \<Rightarrow>
          (let s1 = self\<lparr>order_books := fmupd tp (order_book entry) (order_books self)\<rparr>;
               s2 = s1\<lparr>tracking_message_queues := fmupd tp [] (tracking_message_queues s1)\<rparr>;
               spawned = safe_ensure_future (TrackSingleBook tp) (ev_tasks s2);
               s3 = s2\<lparr>ev_tasks := snd spawned,
                       tracking_tasks := fmupd tp (fst spawned) (tracking_tasks s2)\<rparr>
           in start_tracking available_pairs rest (logger (StartedTracking tp) s3)))"

text \<open>
  The second \<^verbatim>\<open>for\<close> loop, over the deleted trading pairs: \<^verbatim>\<open>cancel()\<close> and three
  \<^verbatim>\<open>del\<close> statements, each of which raises \<^verbatim>\<open>KeyError\<close> on a missing key.
\<close>

fun stop_tracking ::
  "string list \<Rightarrow> ('ob, 'v, 'f) OrderBookTracker \<Rightarrow> ('ob, 'v, 'f) OrderBookTracker body" where
  "stop_tracking [] self = Normal self"
| "stop_tracking (tp # rest) self =
     (case fmlookup (tracking_tasks self) tp of
        None \<Rightarrow> Raise (KeyError tp) self
      | Some h \<Rightarrow>
          (let s1 = self\<lparr>ev_tasks := task_cancel h (ev_tasks self)\<rparr>;
               s2 = s1\<lparr>tracking_tasks := fmdrop tp (tracking_tasks s1)\<rparr>
           in if tp |\<notin>| fmdom (order_books s2) then Raise (KeyError tp) s2
              else
                (let s3 = s2\<lparr>order_books := fmdrop tp (order_books s2)\<rparr>
                 in if tp |\<notin>| fmdom (tracking_message_queues s3) then Raise (KeyError tp) s3
                    else
                      (let s4 = s3\<lparr>tracking_message_queues :=
                                      fmdrop tp (tracking_message_queues s3)\<rparr>
                       in stop_tracking rest (logger (StoppedTracking tp) s4)))))"

text \<open>
  \<^verbatim>\<open>_refresh_tracking_tasks\<close>. \<open>got\<close> is what \<^verbatim>\<open>await self.data_source.get_tracking_pairs()\<close>
  delivers; the tracker is the same before and after that \<^verbatim>\<open>await\<close>, the refresher being
  the one task that changes its dictionaries. Python does not fix the order in which a
  \<^verbatim>\<open>for\<close> loop visits a set: \<open>iter_order\<close> is that order.
\<close>

definition refresh_tracking_tasks ::
  "(string fset \<Rightarrow> string list) \<Rightarrow> (string, 'ob OrderBookTrackerEntry) fmap awaited
   \<Rightarrow> ('ob, 'v, 'f) OrderBookTracker \<Rightarrow> ('ob, 'v, 'f) OrderBookTracker body" where
  "refresh_tracking_tasks iter_order got self =
     (let tracking = tracking_trading_pairs self
      in case got of
           Threw e \<Rightarrow> Raise e self
         | Returned available_pairs \<Rightarrow>
             (let available_trading_pairs = fmdom available_pairs;
                  new_trading_pairs = available_trading_pairs |-| tracking;
                  deleted_trading_pairs = tracking |-| available_trading_pairs
              in case start_tracking available_pairs (iter_order new_trading_pairs) self of
                   Raise e s \<Rightarrow> Raise e s
                 | Normal s \<Rightarrow> stop_tracking (iter_order deleted_trading_pairs) s))"

text \<open>
  One iteration of \<^verbatim>\<open>_refresh_tracking_loop\<close>; \<open>slept_long\<close> is what
  \<^verbatim>\<open>await asyncio.sleep(3600.0)\<close> delivers.
\<close>

definition refresh_tracking_loop ::
  "(string fset \<Rightarrow> string list) \<Rightarrow> (string, 'ob OrderBookTrackerEntry) fmap awaited
   \<Rightarrow> unit awaited \<Rightarrow> unit awaited
   \<Rightarrow> ('ob, 'v, 'f) OrderBookTracker \<Rightarrow> ('ob, 'v, 'f) OrderBookTracker iteration" where
  "refresh_tracking_loop iter_order got slept_long slept self =
     loop_iteration UnknownError logger slept
       (case refresh_tracking_tasks iter_order got self of
          Raise e s \<Rightarrow> Raise e s
        | Normal s \<Rightarrow>
            (case slept_long of
               Returned u \<Rightarrow> Normal s
             | Threw e \<Rightarrow> Raise e s))"

subsection \<open>The routers\<close>

text \<open>The local variables of \<^verbatim>\<open>_order_book_diff_router\<close> and of \<^verbatim>\<open>_emit_trade_event_loop\<close>.\<close>

record 'f counters =
  last_message_timestamp :: 'f
  messages_accepted :: int
  messages_rejected :: int

definition logger2 ::
  "log_record \<Rightarrow> 'a \<times> ('ob, 'v, 'f) OrderBookTracker \<Rightarrow> 'a \<times> ('ob, 'v, 'f) OrderBookTracker" where
  "logger2 r st = (fst st, logger r (snd st))"

text \<open>
  The \<^verbatim>\<open>try\<close> body of \<^verbatim>\<open>_order_book_diff_router\<close>: \<open>got\<close> is what
  \<^verbatim>\<open>await self._order_book_diff_stream.get()\<close> delivers and \<open>now\<close> what \<^verbatim>\<open>time.time()\<close>
  returns. A \<^verbatim>\<open>continue\<close> ends the body normally. The queues are unbounded, so
  \<^verbatim>\<open>put\<close> appends.
\<close>

definition order_book_diff_router_body ::
  "('ob, 'v, 'f) externals \<Rightarrow> 'f \<Rightarrow> ('v, 'f) OrderBookMessage awaited
   \<Rightarrow> 'f counters \<times> ('ob, 'v, 'f) OrderBookTracker
   \<Rightarrow> ('f counters \<times> ('ob, 'v, 'f) OrderBookTracker) body" where
  "order_book_diff_router_body ext now got st =
     (case st of (loc, self) \<Rightarrow>
      (case got of
         Threw e \<Rightarrow> Raise e st
       | Returned ob_message \<Rightarrow>
           (let tp = trading_pair ob_message
            in case fmlookup (tracking_message_queues self) tp of
                 None \<Rightarrow> Normal (loc\<lparr>messages_rejected := messages_rejected loc + 1\<rparr>, self)
               | Some message_queue \<Rightarrow>
                   (case fmlookup (order_books self) tp of
                      None \<Rightarrow> Raise (KeyError tp) st
                    | Some ob \<Rightarrow>
                        if snapshot_uid ext ob > update_id ob_message
                        then Normal (loc\<lparr>messages_rejected := messages_rejected loc + 1\<rparr>, self)
                        else
                          (let self1 = self\<lparr>tracking_message_queues :=
                                 fmupd tp (message_queue @ [ob_message])
                                   (tracking_message_queues self)\<rparr>;
                               loc1 = loc\<lparr>messages_accepted := messages_accepted loc + 1\<rparr>
                           in if minute_of ext now > minute_of ext (last_message_timestamp loc1)
                              then Normal
                                (loc1\<lparr>messages_accepted := 0, messages_rejected := 0,
                                      last_message_timestamp := now\<rparr>,
                                 logger (DiffMessagesProcessed (messages_accepted loc1)
                                           (messages_rejected loc1)) self1)
                              else Normal (loc1\<lparr>last_message_timestamp := now\<rparr>, self1))))))"

definition order_book_diff_router ::
  "('ob, 'v, 'f) externals \<Rightarrow> 'f \<Rightarrow> ('v, 'f) OrderBookMessage awaited \<Rightarrow> unit awaited
   \<Rightarrow> 'f counters \<times> ('ob, 'v, 'f) OrderBookTracker
   \<Rightarrow> ('f counters \<times> ('ob, 'v, 'f) OrderBookTracker) iteration" where
  "order_book_diff_router ext now got slept st =
     loop_iteration UnknownError logger2 slept (order_book_diff_router_body ext now got st)"

definition order_book_snapshot_router_body ::
  "('v, 'f) OrderBookMessage awaited \<Rightarrow> ('ob, 'v, 'f) OrderBookTracker
   \<Rightarrow> ('ob, 'v, 'f) OrderBookTracker body" where
  "order_book_snapshot_router_body got self =
     (case got of
        Threw e \<Rightarrow> Raise e self
      | Returned ob_message \<Rightarrow>
          (let tp = trading_pair ob_message
           in case fmlookup (tracking_message_queues self) tp of
                None \<Rightarrow> Normal self
              | Some message_queue \<Rightarrow>
                  Normal (self\<lparr>tracking_message_queues :=
                            fmupd tp (message_queue @ [ob_message])
                              (tracking_message_queues self)\<rparr>)))"

definition order_book_snapshot_router ::
  "('v, 'f) OrderBookMessage awaited \<Rightarrow> unit awaited \<Rightarrow> ('ob, 'v, 'f) OrderBookTracker
   \<Rightarrow> ('ob, 'v, 'f) OrderBookTracker iteration" where
  "order_book_snapshot_router got slept self =
     loop_iteration UnknownError logger slept (order_book_snapshot_router_body got self)"

subsection \<open>The worker of one trading pair\<close>

text \<open>
  The frame of the coroutine \<^verbatim>\<open>_track_single_book\<close>: its local variables. The deque
  \<open>past_diffs_window\<close> is a list, oldest entry first; it is the object stored under
  \<^verbatim>\<open>_past_diffs_windows[trading_pair]\<close>, as \<open>wk_order_book\<close> is the one stored under
  \<^verbatim>\<open>_order_books[trading_pair]\<close>. \<open>wk_log\<close> collects what the worker logs.
\<close>

record ('ob, 'v, 'f) worker =
  wk_trading_pair :: string
  past_diffs_window :: "('v, 'f) OrderBookMessage list"
  wk_order_book :: 'ob
  wk_last_message_timestamp :: 'f
  diff_messages_accepted :: int
  wk_log :: "log_record list"

text \<open>
  The statements before the loop. They are outside the \<^verbatim>\<open>try\<close>: a missing key ends
  the task, after the empty deque has been registered.
\<close>

definition track_single_book_start ::
  "'f \<Rightarrow> string \<Rightarrow> ('ob, 'v, 'f) OrderBookTracker
   \<Rightarrow> ('ob, 'v, 'f) OrderBookTracker \<times> (exn + ('ob, 'v, 'f) worker)" where
  "track_single_book_start now tp self =
     (let self1 = self\<lparr>past_diffs_windows := fmupd tp [] (past_diffs_windows self)\<rparr>
      in case fmlookup (tracking_message_queues self1) tp of
           None \<Rightarrow> (self1, Inl (KeyError tp))
         | Some message_queue \<Rightarrow>
             (case fmlookup (order_books self1) tp of
                None \<Rightarrow> (self1, Inl (KeyError tp))
              | Some ob \<Rightarrow>
                  (self1, Inr \<lparr>wk_trading_pair = tp, past_diffs_window = [],
                               wk_order_book = ob, wk_last_message_timestamp = now,
                               diff_messages_accepted = 0, wk_log = []\<rparr>)))"

text \<open>\<^verbatim>\<open>while len(past_diffs_window) > self.PAST_DIFF_WINDOW_SIZE: past_diffs_window.popleft()\<close>\<close>

function popleft_while :: "'a list \<Rightarrow> 'a list" where
  "popleft_while window =
     (if length window > PAST_DIFF_WINDOW_SIZE then popleft_while (tl window) else window)"
  by pat_completeness auto
termination
  by (relation "measure length") (auto simp: PAST_DIFF_WINDOW_SIZE_def)

declare popleft_while.simps [simp del]

definition wk_logger :: "log_record \<Rightarrow> ('ob, 'v, 'f) worker \<Rightarrow> ('ob, 'v, 'f) worker" where
  "wk_logger r w = w\<lparr>wk_log := wk_log w @ [r]\<rparr>"

text \<open>
  The \<^verbatim>\<open>try\<close> body of the worker's loop; \<open>got\<close> is what \<^verbatim>\<open>await message_queue.get()\<close>
  delivers. A method of the order book that raises leaves the rest of the body undone.
\<close>

definition track_single_book_body ::
  "('ob, 'v, 'f) externals \<Rightarrow> 'f \<Rightarrow> ('v, 'f) OrderBookMessage awaited
   \<Rightarrow> ('ob, 'v, 'f) worker \<Rightarrow> ('ob, 'v, 'f) worker body" where
  "track_single_book_body ext now got w =
     (case got of
        Threw e \<Rightarrow> Raise e w
      | Returned message \<Rightarrow>
          if type message = DIFF then
            (case apply_diffs ext (wk_order_book w) (bids message) (asks message)
                    (update_id message) of
               (Some e, ob') \<Rightarrow> Raise e (w\<lparr>wk_order_book := ob'\<rparr>)
             | (None, ob') \<Rightarrow>
                 (let w1 = w\<lparr>wk_order_book := ob'\<rparr>;
                      w2 = w1\<lparr>past_diffs_window := past_diffs_window w1 @ [message]\<rparr>;
                      w3 = w2\<lparr>past_diffs_window := popleft_while (past_diffs_window w2)\<rparr>;
                      w4 = w3\<lparr>diff_messages_accepted := diff_messages_accepted w3 + 1\<rparr>;
                      w5 = (if minute_of ext now > minute_of ext (wk_last_message_timestamp w4)
                            then (wk_logger (ProcessedDiffs (diff_messages_accepted w4)
                                              (wk_trading_pair w4)) w4)
                                   \<lparr>diff_messages_accepted := 0\<rparr>
                            else w4)
                  in Normal (w5\<lparr>wk_last_message_timestamp := now\<rparr>)))
          else if type message = SNAPSHOT then
            (let past_diffs = past_diffs_window w
             in case restore_from_snapshot_and_diffs ext (wk_order_book w) message past_diffs of
                  (Some e, ob') \<Rightarrow> Raise e (w\<lparr>wk_order_book := ob'\<rparr>)
                | (None, ob') \<Rightarrow>
                    Normal (wk_logger (ProcessedSnapshot (wk_trading_pair w))
                              (w\<lparr>wk_order_book := ob'\<rparr>)))
          else Normal w)"

definition track_single_book ::
  "('ob, 'v, 'f) externals \<Rightarrow> 'f \<Rightarrow> ('v, 'f) OrderBookMessage awaited \<Rightarrow> unit awaited
   \<Rightarrow> ('ob, 'v, 'f) worker \<Rightarrow> ('ob, 'v, 'f) worker iteration" where
  "track_single_book ext now got slept w =
     loop_iteration UnknownError wk_logger slept (track_single_book_body ext now got w)"

text \<open>
  The loop run on a sequence of iterations, each given by the clock reading, what the
  queue delivers and what the recovery sleep delivers. It stops where the task ends.
\<close>

fun track_single_book_run ::
  "('ob, 'v, 'f) externals \<Rightarrow> ('f \<times> ('v, 'f) OrderBookMessage awaited \<times> unit awaited) list
   \<Rightarrow> ('ob, 'v, 'f) worker \<Rightarrow> ('ob, 'v, 'f) worker iteration" where
  "track_single_book_run ext [] w = Continue w"
| "track_single_book_run ext (i # rest) w =
     (case track_single_book ext (fst i) (fst (snd i)) (snd (snd i)) w of
        Continue w' \<Rightarrow> track_single_book_run ext rest w'
      | Terminated e w' \<Rightarrow> Terminated e w')"

fun final :: "'s iteration \<Rightarrow> 's" where
  "final (Continue s) = s"
| "final (Terminated e s) = s"

text \<open>
  The Diff message the worker processes in one iteration, if any: the one it dequeued,
  provided \<^verbatim>\<open>apply_diffs\<close> returned. \<open>processed_diffs\<close> collects them over a run, in the
  order of arrival.
\<close>

definition processed_now ::
  "('ob, 'v, 'f) externals \<Rightarrow> ('v, 'f) OrderBookMessage awaited \<Rightarrow> ('ob, 'v, 'f) worker
   \<Rightarrow> ('v, 'f) OrderBookMessage list" where
  "processed_now ext got w =
     (case got of
        Returned message \<Rightarrow>
          (if type message = DIFF
              \<and> fst (apply_diffs ext (wk_order_book w) (bids message) (asks message)
                       (update_id message)) = None
           then [message] else [])
      | Threw e \<Rightarrow> [])"

fun processed_diffs ::
  "('ob, 'v, 'f) externals \<Rightarrow> ('f \<times> ('v, 'f) OrderBookMessage awaited \<times> unit awaited) list
   \<Rightarrow> ('ob, 'v, 'f) worker \<Rightarrow> ('v, 'f) OrderBookMessage list" where
  "processed_diffs ext [] w = []"
| "processed_diffs ext (i # rest) w =
     processed_now ext (fst (snd i)) w
     @ (case track_single_book ext (fst i) (fst (snd i)) (snd (snd i)) w of
          Continue w' \<Rightarrow> processed_diffs ext rest w'
        | Terminated e w' \<Rightarrow> [])"

subsection \<open>The trade emitter\<close>

text \<open>
  The \<^verbatim>\<open>OrderBookTradeEvent(...)\<close> expression: the keyword arguments are evaluated in
  the order written, and a missing key or a failing \<^verbatim>\<open>float()\<close> raises.
\<close>

definition trade_event ::
  "('ob, 'v, 'f) externals \<Rightarrow> ('v, 'f) OrderBookMessage \<Rightarrow> exn + 'f OrderBookTradeEvent" where
  "trade_event ext trade_message =
     (case fmlookup (content trade_message) ''price'' of
        None \<Rightarrow> Inl (KeyError ''price'')
      | Some p \<Rightarrow>
     (case float_of ext p of
        Inl e \<Rightarrow> Inl e
      | Inr price \<Rightarrow>
     (case fmlookup (content trade_message) ''amount'' of
        None \<Rightarrow> Inl (KeyError ''amount'')
      | Some a \<Rightarrow>
     (case float_of ext a of
        Inl e \<Rightarrow> Inl e
      | Inr amount \<Rightarrow>
     (case fmlookup (content trade_message) ''trade_type'' of
        None \<Rightarrow> Inl (KeyError ''trade_type'')
      | Some flag \<Rightarrow>
          Inr \<lparr>ev_trading_pair = trading_pair trade_message,
               ev_timestamp = timestamp trade_message,
               ev_price = price,
               ev_amount = amount,
               ev_type = (if eq_sell_value ext flag then SELL else SELL)\<rparr>)))))"

definition emit_trade_event_loop_body ::
  "('ob, 'v, 'f) externals \<Rightarrow> 'f \<Rightarrow> ('v, 'f) OrderBookMessage awaited
   \<Rightarrow> 'f counters \<times> ('ob, 'v, 'f) OrderBookTracker
   \<Rightarrow> ('f counters \<times> ('ob, 'v, 'f) OrderBookTracker) body" where
  "emit_trade_event_loop_body ext now got st =
     (case st of (loc, self) \<Rightarrow>
      (case got of
         Threw e \<Rightarrow> Raise e st
       | Returned trade_message \<Rightarrow>
           (let tp = trading_pair trade_message
            in case fmlookup (order_books self) tp of
                 None \<Rightarrow> Normal (loc\<lparr>messages_rejected := messages_rejected loc + 1\<rparr>, self)
               | Some ob \<Rightarrow>
                   (case trade_event ext trade_message of
                      Inl e \<Rightarrow> Raise e st
                    | Inr ev \<Rightarrow>
                        (case apply_trade ext ob ev of
                           (Some e, ob') \<Rightarrow>
                             Raise e (loc, self\<lparr>order_books := fmupd tp ob' (order_books self)\<rparr>)
                         | (None, ob') \<Rightarrow>
                             (let self1 = self\<lparr>order_books := fmupd tp ob' (order_books self)\<rparr>;
                                  loc1 = loc\<lparr>messages_accepted := messages_accepted loc + 1\<rparr>
                              in if minute_of ext now
                                      > minute_of ext (last_message_timestamp loc1)
                                 then Normal
                                   (loc1\<lparr>messages_accepted := 0, messages_rejected := 0,
                                         last_message_timestamp := now\<rparr>,
                                    logger (TradeMessagesProcessed (messages_accepted loc1)
                                              (messages_rejected loc1)) self1)
                                 else Normal (loc1\<lparr>last_message_timestamp := now\<rparr>, self1)))))))"

definition emit_trade_event_loop ::
  "('ob, 'v, 'f) externals \<Rightarrow> 'f \<Rightarrow> ('v, 'f) OrderBookMessage awaited \<Rightarrow> unit awaited
   \<Rightarrow> 'f counters \<times> ('ob, 'v, 'f) OrderBookTracker
   \<Rightarrow> ('f counters \<times> ('ob, 'v, 'f) OrderBookTracker) iteration" where
  "emit_trade_event_loop ext now got slept st =
     loop_iteration UnexpectedErrorRouting logger2 slept
       (emit_trade_event_loop_body ext now got st)"

subsection \<open>Concrete inputs\<close>

text \<open>\<^verbatim>\<open>__init__\<close>: empty dictionaries and no task.\<close>

definition OrderBookTracker_init :: "('ob, 'v, 'f) OrderBookTracker" where
  "OrderBookTracker_init =
     \<lparr>tracking_tasks = fmempty, order_books = fmempty, tracking_message_queues = fmempty,
      past_diffs_windows = fmempty,
      order_book_diff_listener_task = None, order_book_trade_listener_task = None,
      order_book_snapshot_listener_task = None, order_book_diff_router_task = None,
      order_book_snapshot_router_task = None, emit_trade_event_task = None,
      refresh_tracking_task = None, ev_tasks = [], log = []\<rparr>"

text \<open>
  An order book for the examples. It remembers its baseline, the update ids applied to it
  and the trades it was given; \<^verbatim>\<open>apply_diffs\<close> raises on a negative update id. Payload
  values and floats are natural numbers, the clock counts seconds.
\<close>

record sample_book =
  sb_uid :: int
  sb_applied :: "int list"
  sb_trades :: "nat OrderBookTradeEvent list"

definition book :: "int \<Rightarrow> sample_book" where
  "book u = \<lparr>sb_uid = u, sb_applied = [], sb_trades = []\<rparr>"

definition sample_externals :: "(sample_book, nat, nat) externals" where
  "sample_externals =
     \<lparr>snapshot_uid = sb_uid,
      apply_diffs = (\<lambda>ob b a u.
         if u < 0 then (Some (OtherException ''ValueError''), ob)
         else (None, ob\<lparr>sb_uid := u, sb_applied := sb_applied ob @ [u]\<rparr>)),
      restore_from_snapshot_and_diffs = (\<lambda>ob m ds.
         (None, ob\<lparr>sb_uid := update_id m,
                   sb_applied := filter (\<lambda>u. update_id m < u) (map update_id ds)\<rparr>)),
      apply_trade = (\<lambda>ob ev. (None, ob\<lparr>sb_trades := sb_trades ob @ [ev]\<rparr>)),
      float_of = Inr,
      eq_sell_value = (\<lambda>v. v = 2),
      minute_of = (\<lambda>t. int (t div 60))\<rparr>"

definition msg :: "OrderBookMessageType \<Rightarrow> string \<Rightarrow> int \<Rightarrow> (nat, nat) OrderBookMessage" where
  "msg t tp u =
     \<lparr>type = t, trading_pair = tp, update_id = u, timestamp = 0, bids = 0, asks = 0,
      content = fmupd ''price'' 100 (fmupd ''amount'' 3 (fmupd ''trade_type'' 1 fmempty))\<rparr>"

definition new_task :: "string \<Rightarrow> task" where
  "new_task tp = \<lparr>coro = TrackSingleBook tp, state = Running\<rparr>"

text \<open>A tracker that tracks B and C, a directory that lists A and B, and an iteration order.\<close>

definition tracker_BC :: "(sample_book, nat, nat) OrderBookTracker" where
  "tracker_BC = OrderBookTracker_init
     \<lparr>tracking_tasks := fmupd ''B'' 0 (fmupd ''C'' 1 fmempty),
      order_books := fmupd ''B'' (book 5) (fmupd ''C'' (book 5) fmempty),
      tracking_message_queues := fmupd ''B'' [] (fmupd ''C'' [] fmempty),
      past_diffs_windows := fmupd ''B'' [] (fmupd ''C'' [msg DIFF ''C'' 4] fmempty),
      ev_tasks := [new_task ''B'', new_task ''C'']\<rparr>"

definition directory_AB :: "(string, sample_book OrderBookTrackerEntry) fmap" where
  "directory_AB = fmupd ''A'' \<lparr>order_book = book 6\<rparr> (fmupd ''B'' \<lparr>order_book = book 6\<rparr> fmempty)"

definition sample_order :: "string fset \<Rightarrow> string list" where
  "sample_order S = filter (\<lambda>tp. tp |\<in>| S) [''A'', ''B'', ''C'']"

fun body_state :: "'s body \<Rightarrow> 's" where
  "body_state (Normal s) = s"
| "body_state (Raise e s) = s"

definition worker0 :: "(sample_book, nat, nat) worker" where
  "worker0 = \<lparr>wk_trading_pair = ''B'', past_diffs_window = [], wk_order_book = book 5,
              wk_last_message_timestamp = 0, diff_messages_accepted = 0, wk_log = []\<rparr>"

definition counters0 :: "nat counters" where
  "counters0 = \<lparr>last_message_timestamp = 0, messages_accepted = 0, messages_rejected = 0\<rparr>"

text \<open>A tracker that tracks B alone, with an empty queue and a book whose baseline is 5.\<close>

definition tracker_B5 :: "(sample_book, nat, nat) OrderBookTracker" where
  "tracker_B5 = OrderBookTracker_init
     \<lparr>tracking_tasks := fmupd ''B'' 0 fmempty,
      order_books := fmupd ''B'' (book 5) fmempty,
      tracking_message_queues := fmupd ''B'' [] fmempty,
      ev_tasks := [new_task ''B'']\<rparr>"

text \<open>
  A tracker in full operation: the trade emitter, both routers, the refresher, the three
  listeners and the worker of B are running, and a Diff message waits in the queue of B.
\<close>

definition tracker_running :: "(sample_book, nat, nat) OrderBookTracker" where
  "tracker_running = OrderBookTracker_init
     \<lparr>tracking_tasks := fmupd ''B'' 4 fmempty,
      order_books := fmupd ''B'' (book 5) fmempty,
      tracking_message_queues := fmupd ''B'' [msg DIFF ''B'' 6] fmempty,
      past_diffs_windows := fmupd ''B'' [] fmempty,
      order_book_diff_listener_task := Some 5,
      order_book_trade_listener_task := Some 7,
      order_book_snapshot_listener_task := Some 6,
      order_book_diff_router_task := Some 1,
      order_book_snapshot_router_task := Some 2,
      emit_trade_event_task := Some 0,
      refresh_tracking_task := Some 3,
      ev_tasks := [\<lparr>coro = EmitTradeEventLoop, state = Running\<rparr>,
                   \<lparr>coro = OrderBookDiffRouter, state = Running\<rparr>,
                   \<lparr>coro = OrderBookSnapshotRouter, state = Running\<rparr>,
                   \<lparr>coro = RefreshTrackingLoop, state = Running\<rparr>,
                   new_task ''B'',
                   \<lparr>coro = Listener ''diff'', state = Running\<rparr>,
                   \<lparr>coro = Listener ''snapshot'', state = Running\<rparr>,
                   \<lparr>coro = Listener ''trade'', state = Running\<rparr>]\<rparr>"

text \<open>Worker inputs: the message \<open>m\<close> arrives at clock reading 0, no cancellation.\<close>

definition arrives :: "('v, 'f::zero) OrderBookMessage \<Rightarrow> 'f \<times> ('v, 'f) OrderBookMessage awaited \<times> unit awaited" where
  "arrives m = (0, Returned m, Returned ())"

definition diffs_1_to ::
  "nat \<Rightarrow> (nat \<times> (nat, nat) OrderBookMessage awaited \<times> unit awaited) list" where
  "diffs_1_to n = map (\<lambda>u. arrives (msg DIFF ''B'' (int u))) [1..<Suc n]"

section \<open>Auxiliary facts\<close>

lemmas fixture_defs = msg_def sample_externals_def book_def tracker_B5_def
  OrderBookTracker_init_def counters0_def worker0_def new_task_def arrives_def

lemma loop_iteration_simps:
  "loop_iteration r lg slept (Normal s) = Continue s"
  "loop_iteration r lg slept (Raise e s) = except_clauses r lg slept e s"
  by (simp_all add: loop_iteration_def)

lemma len_dict_zero_iff: "len_dict d = 0 \<longleftrightarrow> d = fmempty"
proof
  assume "len_dict d = 0"
  then have "fmdom d = {||}" by (simp add: len_dict_def)
  then have "\<And>k. fmlookup d k = None" by (metis fmdom_notD fempty_iff)
  then show "d = fmempty" by (intro fmap_ext) simp
qed (simp add: len_dict_def)

lemma length_task_cancel: "length (task_cancel h ts) = length ts"
  by (simp add: task_cancel_def)

lemma task_cancel_nth:
  "h < length ts \<Longrightarrow>
   task_cancel h ts ! k =
     (if k = h \<and> state (ts ! h) \<noteq> Done then (ts ! h)\<lparr>state := CancelRequested\<rparr> else ts ! k)"
  by (auto simp: task_cancel_def nth_list_update)

subsection \<open>The two loops of the refresher\<close>

lemma start_tracking_result:
  assumes "\<forall>tp \<in> set l. tp |\<in>| fmdom av" and "distinct l"
  shows "\<exists>s'. start_tracking av l self = Normal s'
     \<and> past_diffs_windows s' = past_diffs_windows self
     \<and> ev_tasks s' = ev_tasks self @ map new_task l
     \<and> (\<forall>tp. fmlookup (order_books s') tp =
          (if tp \<in> set l then map_option order_book (fmlookup av tp)
           else fmlookup (order_books self) tp))
     \<and> (\<forall>tp. fmlookup (tracking_message_queues s') tp =
          (if tp \<in> set l then Some [] else fmlookup (tracking_message_queues self) tp))
     \<and> (\<forall>tp. tp \<notin> set l \<longrightarrow> fmlookup (tracking_tasks s') tp = fmlookup (tracking_tasks self) tp)
     \<and> (\<forall>i<length l. fmlookup (tracking_tasks s') (l ! i) = Some (length (ev_tasks self) + i))"
  using assms
proof (induction l arbitrary: self)
  case Nil
  then show ?case by simp
next
  case (Cons a l)
  from Cons.prems obtain entry where entry: "fmlookup av a = Some entry"
    by (auto simp: fmlookup_dom_iff)
  define s1 where "s1 = logger (StartedTracking a)
        (self\<lparr>order_books := fmupd a (order_book entry) (order_books self),
              tracking_message_queues := fmupd a [] (tracking_message_queues self),
              ev_tasks := ev_tasks self @ [new_task a],
              tracking_tasks := fmupd a (length (ev_tasks self)) (tracking_tasks self)\<rparr>)"
  have step: "start_tracking av (a # l) self = start_tracking av l s1"
    by (simp add: entry s1_def Let_def safe_ensure_future_def new_task_def)
  from Cons.prems have "\<forall>tp \<in> set l. tp |\<in>| fmdom av" "distinct l" "a \<notin> set l" by auto
  from Cons.IH [OF this(1,2), of s1] obtain s' where
    s': "start_tracking av l s1 = Normal s'"
    and pd: "past_diffs_windows s' = past_diffs_windows s1"
    and ev: "ev_tasks s' = ev_tasks s1 @ map new_task l"
    and ob: "\<And>tp. fmlookup (order_books s') tp =
          (if tp \<in> set l then map_option order_book (fmlookup av tp)
           else fmlookup (order_books s1) tp)"
    and qu: "\<And>tp. fmlookup (tracking_message_queues s') tp =
          (if tp \<in> set l then Some [] else fmlookup (tracking_message_queues s1) tp)"
    and tt: "\<And>tp. tp \<notin> set l \<Longrightarrow> fmlookup (tracking_tasks s') tp = fmlookup (tracking_tasks s1) tp"
    and th: "\<And>i. i < length l \<Longrightarrow> fmlookup (tracking_tasks s') (l ! i) = Some (length (ev_tasks s1) + i)"
    by blast
  have "\<forall>i<length (a # l). fmlookup (tracking_tasks s') ((a # l) ! i) = Some (length (ev_tasks self) + i)"
  proof (intro allI impI)
    fix i assume "i < length (a # l)"
    then show "fmlookup (tracking_tasks s') ((a # l) ! i) = Some (length (ev_tasks self) + i)"
      using th tt [OF \<open>a \<notin> set l\<close>] by (cases i) (simp_all add: s1_def logger_def)
  qed
  then show ?case
    unfolding step using s' pd ev ob qu tt entry
    by (simp add: s1_def logger_def)
qed


lemma stop_tracking_result:
  assumes "distinct l"
    and "\<forall>tp \<in> set l. \<exists>h. fmlookup (tracking_tasks self) tp = Some h \<and> h < length (ev_tasks self)"
    and "\<forall>tp \<in> set l. tp |\<in>| fmdom (order_books self)"
    and "\<forall>tp \<in> set l. tp |\<in>| fmdom (tracking_message_queues self)"
  shows "\<exists>s'. stop_tracking l self = Normal s'
     \<and> past_diffs_windows s' = past_diffs_windows self
     \<and> length (ev_tasks s') = length (ev_tasks self)
     \<and> (\<forall>k. ev_tasks s' ! k =
          (if (\<exists>tp \<in> set l. fmlookup (tracking_tasks self) tp = Some k)
               \<and> state (ev_tasks self ! k) \<noteq> Done
           then (ev_tasks self ! k)\<lparr>state := CancelRequested\<rparr> else ev_tasks self ! k))
     \<and> (\<forall>tp. fmlookup (tracking_tasks s') tp =
          (if tp \<in> set l then None else fmlookup (tracking_tasks self) tp))
     \<and> (\<forall>tp. fmlookup (order_books s') tp =
          (if tp \<in> set l then None else fmlookup (order_books self) tp))
     \<and> (\<forall>tp. fmlookup (tracking_message_queues s') tp =
          (if tp \<in> set l then None else fmlookup (tracking_message_queues self) tp))"
  using assms
proof (induction l arbitrary: self)
  case Nil
  then show ?case by simp
next
  case (Cons a l)
  from Cons.prems obtain h where h: "fmlookup (tracking_tasks self) a = Some h"
      and hlt: "h < length (ev_tasks self)"
    by auto
  define s1 where "s1 = logger (StoppedTracking a)
        (self\<lparr>ev_tasks := task_cancel h (ev_tasks self),
              tracking_tasks := fmdrop a (tracking_tasks self),
              order_books := fmdrop a (order_books self),
              tracking_message_queues := fmdrop a (tracking_message_queues self)\<rparr>)"
  have step: "stop_tracking (a # l) self = stop_tracking l s1"
    using Cons.prems(3,4) by (simp add: h s1_def Let_def)
  from Cons.prems have al: "a \<notin> set l" and dl: "distinct l" by auto
  have p2: "\<forall>tp \<in> set l. \<exists>h. fmlookup (tracking_tasks s1) tp = Some h \<and> h < length (ev_tasks s1)"
    using Cons.prems(2) al by (auto simp: s1_def logger_def length_task_cancel)
  have p3: "\<forall>tp \<in> set l. tp |\<in>| fmdom (order_books s1)"
    using Cons.prems(3) al by (auto simp: s1_def logger_def)
  have p4: "\<forall>tp \<in> set l. tp |\<in>| fmdom (tracking_message_queues s1)"
    using Cons.prems(4) al by (auto simp: s1_def logger_def)
  from Cons.IH [OF dl p2 p3 p4] obtain s' where
    s': "stop_tracking l s1 = Normal s'"
    and pd: "past_diffs_windows s' = past_diffs_windows s1"
    and len: "length (ev_tasks s') = length (ev_tasks s1)"
    and ev: "\<And>k. ev_tasks s' ! k =
          (if (\<exists>tp \<in> set l. fmlookup (tracking_tasks s1) tp = Some k)
               \<and> state (ev_tasks s1 ! k) \<noteq> Done
           then (ev_tasks s1 ! k)\<lparr>state := CancelRequested\<rparr> else ev_tasks s1 ! k)"
    and tt: "\<And>tp. fmlookup (tracking_tasks s') tp =
          (if tp \<in> set l then None else fmlookup (tracking_tasks s1) tp)"
    and ob: "\<And>tp. fmlookup (order_books s') tp =
          (if tp \<in> set l then None else fmlookup (order_books s1) tp)"
    and qu: "\<And>tp. fmlookup (tracking_message_queues s') tp =
          (if tp \<in> set l then None else fmlookup (tracking_message_queues s1) tp)"
    by blast
  have ev1: "\<And>k. ev_tasks s1 ! k =
      (if k = h \<and> state (ev_tasks self ! h) \<noteq> Done
       then (ev_tasks self ! h)\<lparr>state := CancelRequested\<rparr> else ev_tasks self ! k)"
    using task_cancel_nth [OF hlt] by (simp add: s1_def logger_def)
  have tt1: "\<And>tp. tp \<in> set l \<Longrightarrow> fmlookup (tracking_tasks s1) tp = fmlookup (tracking_tasks self) tp"
    using al by (auto simp: s1_def logger_def)
  have "\<forall>k. ev_tasks s' ! k =
          (if (\<exists>tp \<in> set (a # l). fmlookup (tracking_tasks self) tp = Some k)
               \<and> state (ev_tasks self ! k) \<noteq> Done
           then (ev_tasks self ! k)\<lparr>state := CancelRequested\<rparr> else ev_tasks self ! k)"
  proof
    fix k
    have "(\<exists>tp \<in> set l. fmlookup (tracking_tasks s1) tp = Some k)
          \<longleftrightarrow> (\<exists>tp \<in> set l. fmlookup (tracking_tasks self) tp = Some k)"
      using tt1 by auto
    then show "ev_tasks s' ! k =
          (if (\<exists>tp \<in> set (a # l). fmlookup (tracking_tasks self) tp = Some k)
               \<and> state (ev_tasks self ! k) \<noteq> Done
           then (ev_tasks self ! k)\<lparr>state := CancelRequested\<rparr> else ev_tasks self ! k)"
      unfolding ev [of k] ev1 using h by auto
  qed
  then show ?case
    unfolding step using s' pd len tt ob qu
    by (simp add: s1_def logger_def length_task_cancel)
qed

lemma tracking_trading_pairs_iff:
  "tp |\<in>| tracking_trading_pairs s \<longleftrightarrow>
     (\<exists>h. fmlookup (tracking_tasks s) tp = Some h \<and> \<not> task_done (ev_tasks s) h)"
  by (auto simp: tracking_trading_pairs_def fmlookup_dom_iff split: option.splits)

subsection \<open>The example tracker and directory\<close>

lemma tracking_BC: "tracking_trading_pairs tracker_BC = {|''B'', ''C''|}"
  by (auto simp: tracking_trading_pairs_iff tracker_BC_def OrderBookTracker_init_def task_done_def new_task_def split: if_splits)

lemma dom_AB: "fmdom directory_AB = {|''A'', ''B''|}"
  by (simp add: directory_AB_def)

lemma new_AB: "fmdom directory_AB |-| tracking_trading_pairs tracker_BC = {|''A''|}"
  unfolding tracking_BC dom_AB by auto

lemma del_AB: "tracking_trading_pairs tracker_BC |-| fmdom directory_AB = {|''C''|}"
  unfolding tracking_BC dom_AB by auto

lemma refresh_BC:
  "refresh_tracking_tasks sample_order (Returned directory_AB) tracker_BC
   = Normal (tracker_BC
       \<lparr>tracking_tasks := fmupd ''A'' 2 (fmdrop ''C'' (tracking_tasks tracker_BC)),
        order_books := fmdrop ''C'' (fmupd ''A'' (book 6) (order_books tracker_BC)),
        tracking_message_queues := fmdrop ''C'' (fmupd ''A'' [] (tracking_message_queues tracker_BC)),
        ev_tasks := [new_task ''B'', (new_task ''C'')\<lparr>state := CancelRequested\<rparr>, new_task ''A''],
        log := [StartedTracking ''A'', StoppedTracking ''C'']\<rparr>)"
  apply (simp only: refresh_tracking_tasks_def Let_def awaited.case new_AB del_AB)
  apply (simp add: sample_order_def directory_AB_def tracker_BC_def OrderBookTracker_init_def logger_def safe_ensure_future_def task_cancel_def new_task_def fmdrop_fmupd numeral_2_eq_2)
  done

lemma refresh_BC_Normal:
  "refresh_tracking_tasks sample_order (Returned directory_AB) tracker_BC
     = Normal (body_state (refresh_tracking_tasks sample_order (Returned directory_AB) tracker_BC))"
  by (simp add: refresh_BC)

subsection \<open>The window of past diffs\<close>

lemma popleft_while_eq: "popleft_while w = drop (length w - PAST_DIFF_WINDOW_SIZE) w"
proof (induction w rule: popleft_while.induct)
  case (1 window)
  show ?case
  proof (cases "length window > PAST_DIFF_WINDOW_SIZE")
    case True
    then have "window \<noteq> []" by auto
    then obtain x xs where w: "window = x # xs" by (cases window) auto
    have "popleft_while window = popleft_while (tl window)"
      using True popleft_while.simps [of window] by simp
    also have "\<dots> = drop (length (tl window) - PAST_DIFF_WINDOW_SIZE) (tl window)"
      using 1 True by simp
    also have "\<dots> = drop (length window - PAST_DIFF_WINDOW_SIZE) window"
      using True w by (simp add: Suc_diff_le)
    finally show ?thesis .
  next
    case False
    then show ?thesis using popleft_while.simps [of window] by simp
  qed
qed

lemma drop_window_append:
  "drop (length (drop (length X - n) X @ R) - n) (drop (length X - n) X @ R)
   = drop (length (X @ R) - n) (X @ R)"
  by (cases "length X \<le> n") (auto simp: drop_append add.commute)

lemma track_single_book_window:
  "past_diffs_window (final (track_single_book ext now got slept w))
   = (if processed_now ext got w = [] then past_diffs_window w
      else popleft_while (past_diffs_window w @ processed_now ext got w))"
  by (auto simp: track_single_book_def track_single_book_body_def loop_iteration_def
        except_clauses_def wk_logger_def processed_now_def Let_def
        split: awaited.splits prod.splits option.splits)

lemma track_single_book_window_drop:
  assumes "length (past_diffs_window w) \<le> PAST_DIFF_WINDOW_SIZE"
  shows "past_diffs_window (final (track_single_book ext now got slept w))
   = drop (length (past_diffs_window w @ processed_now ext got w) - PAST_DIFF_WINDOW_SIZE)
       (past_diffs_window w @ processed_now ext got w)"
  using assms by (simp add: track_single_book_window popleft_while_eq)

lemma run_window:
  "length (past_diffs_window w) \<le> PAST_DIFF_WINDOW_SIZE \<Longrightarrow>
   past_diffs_window (final (track_single_book_run ext inputs w))
   = drop (length (past_diffs_window w @ processed_diffs ext inputs w) - PAST_DIFF_WINDOW_SIZE)
       (past_diffs_window w @ processed_diffs ext inputs w)"
proof (induction inputs arbitrary: w)
  case Nil
  then show ?case by simp
next
  case (Cons i rest)
  let ?it = "track_single_book ext (fst i) (fst (snd i)) (snd (snd i)) w"
  let ?P = "processed_now ext (fst (snd i)) w"
  let ?X = "past_diffs_window w @ ?P"
  have one: "past_diffs_window (final ?it) = drop (length ?X - PAST_DIFF_WINDOW_SIZE) ?X"
    using Cons.prems by (rule track_single_book_window_drop)
  show ?case
  proof (cases ?it)
    case (Continue w')
    then have w': "past_diffs_window w' = drop (length ?X - PAST_DIFF_WINDOW_SIZE) ?X"
      using one by simp
    then have "length (past_diffs_window w') \<le> PAST_DIFF_WINDOW_SIZE" by simp
    from Cons.IH [OF this]
    have "past_diffs_window (final (track_single_book_run ext rest w'))
        = drop (length (?X @ processed_diffs ext rest w') - PAST_DIFF_WINDOW_SIZE)
            (?X @ processed_diffs ext rest w')"
      unfolding w' drop_window_append .
    then show ?thesis using Continue by simp
  next
    case (Terminated e w')
    then show ?thesis using one by simp
  qed
qed

lemma processed_33:
  "map update_id
     (processed_diffs sample_externals
        (diffs_1_to 33 @ [arrives (msg DIFF ''B'' (- 1)), arrives (msg SNAPSHOT ''B'' 40)]) worker0)
   = map int [1..<34]"
  by (simp add: diffs_1_to_def upt_rec arrives_def processed_now_def track_single_book_def
       track_single_book_body_def loop_iteration_def except_clauses_def wk_logger_def msg_def
       sample_externals_def worker0_def book_def popleft_while_eq PAST_DIFF_WINDOW_SIZE_def Let_def)

section \<open>The Diff router\<close>

text \<open>
  C1. A Diff message for a tracked trading pair is rejected when the update id of the
  book's baseline is larger than the message's: the queue and the books are left as they
  are and the rejected counter grows by one. Otherwise, also when the two ids are equal,
  the message is put on the pair's queue and the accepted counter grows by one; when the
  clock has passed into another minute the two counters are logged and reset to 0.
\<close>

theorem order_book_diff_router_staleness:
  assumes "fmlookup (tracking_message_queues self) (trading_pair m) = Some q"
    and "fmlookup (order_books self) (trading_pair m) = Some ob"
  shows "(update_id m < snapshot_uid ext ob \<longrightarrow>
            order_book_diff_router ext now (Returned m) slept (loc, self)
              = Continue (loc\<lparr>messages_rejected := messages_rejected loc + 1\<rparr>, self))
       \<and> (snapshot_uid ext ob \<le> update_id m \<longrightarrow>
            order_book_diff_router ext now (Returned m) slept (loc, self)
              = Continue
                  (if minute_of ext now > minute_of ext (last_message_timestamp loc)
                   then (loc\<lparr>messages_accepted := 0, messages_rejected := 0,
                              last_message_timestamp := now\<rparr>,
                         self\<lparr>tracking_message_queues :=
                                 fmupd (trading_pair m) (q @ [m]) (tracking_message_queues self),
                               log := log self @ [DiffMessagesProcessed
                                        (messages_accepted loc + 1) (messages_rejected loc)]\<rparr>)
                   else (loc\<lparr>messages_accepted := messages_accepted loc + 1,
                              last_message_timestamp := now\<rparr>,
                         self\<lparr>tracking_message_queues :=
                                 fmupd (trading_pair m) (q @ [m]) (tracking_message_queues self)\<rparr>)))"
  using assms
  by (auto simp: order_book_diff_router_def order_book_diff_router_body_def
        loop_iteration_simps logger_def Let_def)

text \<open>The theorem at two messages: update id 4 is rejected, update id 6 is forwarded.\<close>

theorem order_book_diff_router_staleness_witness:
  "fmlookup (tracking_message_queues tracker_B5) (trading_pair (msg DIFF ''B'' 4)) = Some []
   \<and> fmlookup (order_books tracker_B5) (trading_pair (msg DIFF ''B'' 4)) = Some (book 5)
   \<and> update_id (msg DIFF ''B'' 4) < snapshot_uid sample_externals (book 5)
   \<and> order_book_diff_router sample_externals 60 (Returned (msg DIFF ''B'' 4)) (Returned ())
        (counters0, tracker_B5)
      = Continue (counters0\<lparr>messages_rejected := 1\<rparr>, tracker_B5)
   \<and> snapshot_uid sample_externals (book 5) \<le> update_id (msg DIFF ''B'' 6)
   \<and> order_book_diff_router sample_externals 60 (Returned (msg DIFF ''B'' 6)) (Returned ())
        (counters0, tracker_B5)
      = Continue (counters0\<lparr>last_message_timestamp := 60\<rparr>,
                  tracker_B5\<lparr>tracking_message_queues := fmupd ''B'' [msg DIFF ''B'' 6] fmempty,
                             log := [DiffMessagesProcessed 1 0]\<rparr>)"
  using order_book_diff_router_staleness
     [where self = tracker_B5 and m = "msg DIFF ''B'' 4" and q = "[]" and ob = "book 5"
        and ext = sample_externals and now = 60 and slept = "Returned ()" and loc = counters0]
    order_book_diff_router_staleness
     [where self = tracker_B5 and m = "msg DIFF ''B'' 6" and q = "[]" and ob = "book 5"
        and ext = sample_externals and now = 60 and slept = "Returned ()" and loc = counters0]
  by (simp add: fixture_defs)

text \<open>
  A message whose update id equals the baseline of the book is forwarded, and the rejected
  counter stays as it is.
\<close>

theorem order_book_diff_router_equal_id_counterexample:
  "update_id (msg DIFF ''B'' 5) \<le> snapshot_uid sample_externals (book 5)
   \<and> fmlookup (order_books tracker_B5) ''B'' = Some (book 5)
   \<and> fmlookup (tracking_message_queues tracker_B5) ''B'' = Some []
   \<and> fmlookup (tracking_message_queues (snd (final
        (order_book_diff_router sample_externals 0 (Returned (msg DIFF ''B'' 5)) (Returned ())
           (counters0, tracker_B5))))) ''B''
      = Some [msg DIFF ''B'' 5]
   \<and> messages_rejected (fst (final
        (order_book_diff_router sample_externals 0 (Returned (msg DIFF ''B'' 5)) (Returned ())
           (counters0, tracker_B5))))
      = messages_rejected counters0
   \<and> messages_accepted (fst (final
        (order_book_diff_router sample_externals 0 (Returned (msg DIFF ''B'' 5)) (Returned ())
           (counters0, tracker_B5))))
      = messages_accepted counters0 + 1"
  by (simp add: order_book_diff_router_def order_book_diff_router_body_def
        loop_iteration_simps logger_def Let_def fixture_defs)

section \<open>Stopping the tracker\<close>

text \<open>
  C2. \<open>stop\<close> cancels the tasks held in the attributes it names. The workers are held in
  \<^verbatim>\<open>_tracking_tasks\<close>, which \<open>stop\<close> does not visit: on the tracker in full operation the
  trade emitter, the routers, the refresher and two listeners are cancelled, and the worker
  of B is still running, still registered, with a message in its queue; its next iteration
  applies that message to the order book of B. The trade listener is still running as well.
\<close>

theorem stop_leaves_worker_running:
  "fmlookup (tracking_tasks tracker_running) ''B'' = Some 4
   \<and> ev_tasks tracker_running ! 4 = \<lparr>coro = TrackSingleBook ''B'', state = Running\<rparr>
   \<and> fmlookup (tracking_tasks (stop tracker_running)) ''B'' = Some 4
   \<and> ev_tasks (stop tracker_running) ! 4 = \<lparr>coro = TrackSingleBook ''B'', state = Running\<rparr>
   \<and> fmlookup (tracking_message_queues (stop tracker_running)) ''B'' = Some [msg DIFF ''B'' 6]
   \<and> map state (ev_tasks (stop tracker_running))
       = [CancelRequested, CancelRequested, CancelRequested, CancelRequested, Running,
          CancelRequested, CancelRequested, Running]
   \<and> fmlookup (order_books (stop tracker_running)) ''B'' = Some (wk_order_book worker0)
   \<and> sb_applied (wk_order_book worker0) = []
   \<and> sb_applied (wk_order_book (final (track_single_book sample_externals 0
        (Returned (msg DIFF ''B'' 6)) (Returned ()) worker0))) = [6]"
  by (simp add: stop_def tracker_running_def task_cancel_def fixture_defs
        track_single_book_def track_single_book_body_def loop_iteration_simps
        popleft_while_eq PAST_DIFF_WINDOW_SIZE_def wk_logger_def Let_def)

section \<open>One cycle of the refresher\<close>

text \<open>
  C3. After \<^verbatim>\<open>_refresh_tracking_tasks\<close> the trading pairs with a task that is not done are
  exactly those of the directory. A pair of the directory that was not tracked has the
  directory's order book, an empty queue and a new running worker. A tracked pair that
  the directory does not list has its worker cancelled and its entries removed from
  \<^verbatim>\<open>_tracking_tasks\<close>, \<^verbatim>\<open>_order_books\<close> and \<^verbatim>\<open>_tracking_message_queues\<close>;
  \<^verbatim>\<open>_past_diffs_windows\<close> is left as it was. The order in which the two sets are visited
  is any enumeration of them, task handles refer to tasks of the event loop, and a tracked
  pair has an order book and a queue.
\<close>

theorem refresh_tracking_tasks_converges:
  assumes new_enum:
      "fset_of_list (iter_order (fmdom av |-| tracking_trading_pairs self))
         = fmdom av |-| tracking_trading_pairs self"
      "distinct (iter_order (fmdom av |-| tracking_trading_pairs self))"
    and del_enum:
      "fset_of_list (iter_order (tracking_trading_pairs self |-| fmdom av))
         = tracking_trading_pairs self |-| fmdom av"
      "distinct (iter_order (tracking_trading_pairs self |-| fmdom av))"
    and handles: "\<forall>tp h. fmlookup (tracking_tasks self) tp = Some h \<longrightarrow> h < length (ev_tasks self)"
    and books: "tracking_trading_pairs self |\<subseteq>| fmdom (order_books self)"
    and queues: "tracking_trading_pairs self |\<subseteq>| fmdom (tracking_message_queues self)"
  shows "\<exists>s'. refresh_tracking_tasks iter_order (Returned av) self = Normal s'
    \<and> tracking_trading_pairs s' = fmdom av
    \<and> (\<forall>tp. tp |\<in>| fmdom av |-| tracking_trading_pairs self \<longrightarrow>
          fmlookup (order_books s') tp = map_option order_book (fmlookup av tp)
          \<and> fmlookup (tracking_message_queues s') tp = Some []
          \<and> (\<exists>h. fmlookup (tracking_tasks s') tp = Some h
                \<and> length (ev_tasks self) \<le> h \<and> h < length (ev_tasks s')
                \<and> ev_tasks s' ! h = \<lparr>coro = TrackSingleBook tp, state = Running\<rparr>))
    \<and> (\<forall>tp. tp |\<in>| tracking_trading_pairs self |-| fmdom av \<longrightarrow>
          (\<exists>h. fmlookup (tracking_tasks self) tp = Some h
                \<and> ev_tasks s' ! h = (ev_tasks self ! h)\<lparr>state := CancelRequested\<rparr>)
          \<and> fmlookup (tracking_tasks s') tp = None
          \<and> fmlookup (order_books s') tp = None
          \<and> fmlookup (tracking_message_queues s') tp = None)
    \<and> past_diffs_windows s' = past_diffs_windows self"
proof -
  define T where "T = tracking_trading_pairs self"
  define N where "N = iter_order (fmdom av |-| T)"
  define D where "D = iter_order (T |-| fmdom av)"
  have setN: "\<And>tp. tp \<in> set N \<longleftrightarrow> tp |\<in>| fmdom av \<and> tp |\<notin>| T"
    using new_enum(1) unfolding N_def T_def by (metis fminus_iff fset_of_list_elem)
  have setD: "\<And>tp. tp \<in> set D \<longleftrightarrow> tp |\<in>| T \<and> tp |\<notin>| fmdom av"
    using del_enum(1) unfolding D_def T_def by (metis fminus_iff fset_of_list_elem)
  have dN: "distinct N" and dD: "distinct D"
    using new_enum(2) del_enum(2) by (simp_all add: N_def D_def T_def)
  have T_iff: "\<And>tp. tp |\<in>| T \<longleftrightarrow>
      (\<exists>h. fmlookup (tracking_tasks self) tp = Some h \<and> \<not> task_done (ev_tasks self) h)"
    by (simp add: T_def tracking_trading_pairs_iff)
  let ?n = "length (ev_tasks self)"
  from start_tracking_result [of N av self] setN dN obtain s1 where
    s1: "start_tracking av N self = Normal s1"
    and pd1: "past_diffs_windows s1 = past_diffs_windows self"
    and ev1: "ev_tasks s1 = ev_tasks self @ map new_task N"
    and ob1: "\<And>tp. fmlookup (order_books s1) tp =
          (if tp \<in> set N then map_option order_book (fmlookup av tp)
           else fmlookup (order_books self) tp)"
    and qu1: "\<And>tp. fmlookup (tracking_message_queues s1) tp =
          (if tp \<in> set N then Some [] else fmlookup (tracking_message_queues self) tp)"
    and tt1: "\<And>tp. tp \<notin> set N \<Longrightarrow> fmlookup (tracking_tasks s1) tp = fmlookup (tracking_tasks self) tp"
    and th1: "\<And>i. i < length N \<Longrightarrow> fmlookup (tracking_tasks s1) (N ! i) = Some (?n + i)"
    by blast
  have DN: "\<And>tp. tp \<in> set D \<Longrightarrow> tp \<notin> set N" using setN setD by auto
  have q2: "\<forall>tp \<in> set D. \<exists>h. fmlookup (tracking_tasks s1) tp = Some h \<and> h < length (ev_tasks s1)"
  proof
    fix tp assume tp: "tp \<in> set D"
    then obtain h where "fmlookup (tracking_tasks self) tp = Some h" using setD T_iff by blast
    moreover have "h < ?n" using handles calculation by blast
    ultimately show "\<exists>h. fmlookup (tracking_tasks s1) tp = Some h \<and> h < length (ev_tasks s1)"
      using tt1 [OF DN [OF tp]] by (simp add: ev1)
  qed
  have q3: "\<forall>tp \<in> set D. tp |\<in>| fmdom (order_books s1)"
  proof
    fix tp assume tp: "tp \<in> set D"
    then have "tp |\<in>| fmdom (order_books self)" using books setD T_def by blast
    then show "tp |\<in>| fmdom (order_books s1)"
      using ob1 [of tp] DN [OF tp] by (simp add: fmlookup_dom_iff)
  qed
  have q4: "\<forall>tp \<in> set D. tp |\<in>| fmdom (tracking_message_queues s1)"
  proof
    fix tp assume tp: "tp \<in> set D"
    then have "tp |\<in>| fmdom (tracking_message_queues self)" using queues setD T_def by blast
    then show "tp |\<in>| fmdom (tracking_message_queues s1)"
      using qu1 [of tp] DN [OF tp] by (simp add: fmlookup_dom_iff)
  qed
  from stop_tracking_result [OF dD q2 q3 q4] obtain s' where
    s': "stop_tracking D s1 = Normal s'"
    and pd: "past_diffs_windows s' = past_diffs_windows s1"
    and len: "length (ev_tasks s') = length (ev_tasks s1)"
    and ev: "\<And>k. ev_tasks s' ! k =
          (if (\<exists>tp \<in> set D. fmlookup (tracking_tasks s1) tp = Some k)
               \<and> state (ev_tasks s1 ! k) \<noteq> Done
           then (ev_tasks s1 ! k)\<lparr>state := CancelRequested\<rparr> else ev_tasks s1 ! k)"
    and tt: "\<And>tp. fmlookup (tracking_tasks s') tp =
          (if tp \<in> set D then None else fmlookup (tracking_tasks s1) tp)"
    and ob: "\<And>tp. fmlookup (order_books s') tp =
          (if tp \<in> set D then None else fmlookup (order_books s1) tp)"
    and qu: "\<And>tp. fmlookup (tracking_message_queues s') tp =
          (if tp \<in> set D then None else fmlookup (tracking_message_queues s1) tp)"
    by blast
  have res: "refresh_tracking_tasks iter_order (Returned av) self = Normal s'"
    using s1 s' by (simp add: refresh_tracking_tasks_def Let_def N_def D_def T_def)
  \<comment> \<open>the handles of the deleted pairs are old handles\<close>
  have Dh: "\<And>k. (\<exists>tp \<in> set D. fmlookup (tracking_tasks s1) tp = Some k)
              \<longleftrightarrow> (\<exists>tp \<in> set D. fmlookup (tracking_tasks self) tp = Some k)"
    using tt1 DN by (metis)
  have old: "\<And>k. k < ?n \<Longrightarrow> ev_tasks s1 ! k = ev_tasks self ! k"
    by (simp add: ev1 nth_append)
  have done_old: "\<And>k. k < ?n \<Longrightarrow> task_done (ev_tasks s') k = task_done (ev_tasks self) k"
    unfolding task_done_def ev old by auto
  have new_h: "\<And>i. i < length N \<Longrightarrow> ev_tasks s' ! (?n + i) = new_task (N ! i)"
  proof -
    fix i assume i: "i < length N"
    have "\<not> (\<exists>tp \<in> set D. fmlookup (tracking_tasks s1) tp = Some (?n + i))"
      unfolding Dh using handles by (metis not_add_less1)
    then show "ev_tasks s' ! (?n + i) = new_task (N ! i)"
      unfolding ev using i by (simp add: ev1 nth_append)
  qed
  have new_part: "\<And>tp. tp \<in> set N \<Longrightarrow>
          fmlookup (order_books s') tp = map_option order_book (fmlookup av tp)
          \<and> fmlookup (tracking_message_queues s') tp = Some []
          \<and> (\<exists>h. fmlookup (tracking_tasks s') tp = Some h
                \<and> ?n \<le> h \<and> h < length (ev_tasks s')
                \<and> ev_tasks s' ! h = \<lparr>coro = TrackSingleBook tp, state = Running\<rparr>)"
  proof -
    fix tp assume tp: "tp \<in> set N"
    then obtain i where i: "i < length N" "N ! i = tp" by (auto simp: in_set_conv_nth)
    have nD: "tp \<notin> set D" using DN tp by blast
    have "fmlookup (tracking_tasks s') tp = Some (?n + i)"
      using tt [of tp] nD th1 [OF i(1)] i(2) by simp
    moreover have "ev_tasks s' ! (?n + i) = \<lparr>coro = TrackSingleBook tp, state = Running\<rparr>"
      using new_h [OF i(1)] i(2) by (simp add: new_task_def)
    moreover have "?n + i < length (ev_tasks s')" using i(1) by (simp add: len ev1)
    ultimately show "fmlookup (order_books s') tp = map_option order_book (fmlookup av tp)
          \<and> fmlookup (tracking_message_queues s') tp = Some []
          \<and> (\<exists>h. fmlookup (tracking_tasks s') tp = Some h
                \<and> ?n \<le> h \<and> h < length (ev_tasks s')
                \<and> ev_tasks s' ! h = \<lparr>coro = TrackSingleBook tp, state = Running\<rparr>)"
      using ob [of tp] qu [of tp] ob1 [of tp] qu1 [of tp] nD tp by simp
  qed
  have del_part: "\<And>tp. tp \<in> set D \<Longrightarrow>
          (\<exists>h. fmlookup (tracking_tasks self) tp = Some h
                \<and> ev_tasks s' ! h = (ev_tasks self ! h)\<lparr>state := CancelRequested\<rparr>)
          \<and> fmlookup (tracking_tasks s') tp = None
          \<and> fmlookup (order_books s') tp = None
          \<and> fmlookup (tracking_message_queues s') tp = None"
  proof -
    fix tp assume tp: "tp \<in> set D"
    then obtain h where h: "fmlookup (tracking_tasks self) tp = Some h"
        "\<not> task_done (ev_tasks self) h"
      using setD T_iff by blast
    have hn: "h < ?n" using handles h(1) by blast
    have "ev_tasks s' ! h = (ev_tasks self ! h)\<lparr>state := CancelRequested\<rparr>"
      unfolding ev Dh old [OF hn] using tp h by (auto simp: task_done_def)
    then show "(\<exists>h. fmlookup (tracking_tasks self) tp = Some h
                \<and> ev_tasks s' ! h = (ev_tasks self ! h)\<lparr>state := CancelRequested\<rparr>)
          \<and> fmlookup (tracking_tasks s') tp = None
          \<and> fmlookup (order_books s') tp = None
          \<and> fmlookup (tracking_message_queues s') tp = None"
      using h(1) tt [of tp] ob [of tp] qu [of tp] tp by simp
  qed
  have tracked: "tracking_trading_pairs s' = fmdom av"
  proof (rule fset_eqI)
    fix tp
    show "tp |\<in>| tracking_trading_pairs s' \<longleftrightarrow> tp |\<in>| fmdom av"
    proof (cases "tp \<in> set N")
      case True
      with new_part [OF True] show ?thesis
        by (auto simp: tracking_trading_pairs_iff task_done_def setN)
    next
      case nN: False
      show ?thesis
      proof (cases "tp \<in> set D")
        case True
        then show ?thesis using tt [of tp] setD by (simp add: tracking_trading_pairs_iff)
      next
        case nD: False
        have same: "fmlookup (tracking_tasks s') tp = fmlookup (tracking_tasks self) tp"
          using tt [of tp] tt1 [OF nN] nD by simp
        have "tp |\<in>| tracking_trading_pairs s' \<longleftrightarrow> tp |\<in>| T"
          unfolding tracking_trading_pairs_iff T_iff same
          using handles done_old by (metis)
        then show ?thesis using nN nD setN setD by blast
      qed
    qed
  qed
  show ?thesis
    using res tracked new_part del_part pd pd1 setN setD
    by (intro exI [of _ s']) (simp add: T_def)
qed

theorem refresh_tracking_tasks_converges_witness:
  "fset_of_list (sample_order (fmdom directory_AB |-| tracking_trading_pairs tracker_BC))
     = fmdom directory_AB |-| tracking_trading_pairs tracker_BC
   \<and> distinct (sample_order (fmdom directory_AB |-| tracking_trading_pairs tracker_BC))
   \<and> fset_of_list (sample_order (tracking_trading_pairs tracker_BC |-| fmdom directory_AB))
     = tracking_trading_pairs tracker_BC |-| fmdom directory_AB
   \<and> distinct (sample_order (tracking_trading_pairs tracker_BC |-| fmdom directory_AB))
   \<and> fmlookup (tracking_tasks tracker_BC) ''B'' = Some 0
   \<and> fmlookup (tracking_tasks tracker_BC) ''C'' = Some 1
   \<and> length (ev_tasks tracker_BC) = 2
   \<and> tracking_trading_pairs tracker_BC = {|''B'', ''C''|}
   \<and> fmdom (order_books tracker_BC) = {|''B'', ''C''|}
   \<and> fmdom (tracking_message_queues tracker_BC) = {|''B'', ''C''|}
   \<and> tracking_trading_pairs
        (body_state (refresh_tracking_tasks sample_order (Returned directory_AB) tracker_BC))
      = {|''A'', ''B''|}"
proof -
  have h1: "fset_of_list (sample_order (fmdom directory_AB |-| tracking_trading_pairs tracker_BC))
     = fmdom directory_AB |-| tracking_trading_pairs tracker_BC"
    and h2: "distinct (sample_order (fmdom directory_AB |-| tracking_trading_pairs tracker_BC))"
    and h3: "fset_of_list (sample_order (tracking_trading_pairs tracker_BC |-| fmdom directory_AB))
     = tracking_trading_pairs tracker_BC |-| fmdom directory_AB"
    and h4: "distinct (sample_order (tracking_trading_pairs tracker_BC |-| fmdom directory_AB))"
    unfolding new_AB del_AB by (simp_all add: sample_order_def)
  have t: "fmlookup (tracking_tasks tracker_BC) ''B'' = Some 0"
      "fmlookup (tracking_tasks tracker_BC) ''C'' = Some 1"
      "length (ev_tasks tracker_BC) = 2"
    by (simp_all add: tracker_BC_def OrderBookTracker_init_def)
  have h5: "\<forall>tp h. fmlookup (tracking_tasks tracker_BC) tp = Some h
              \<longrightarrow> h < length (ev_tasks tracker_BC)"
    by (auto simp: tracker_BC_def OrderBookTracker_init_def split: if_splits)
  have d: "fmdom (order_books tracker_BC) = {|''B'', ''C''|}"
      "fmdom (tracking_message_queues tracker_BC) = {|''B'', ''C''|}"
    by (simp_all add: tracker_BC_def OrderBookTracker_init_def)
  have h6: "tracking_trading_pairs tracker_BC |\<subseteq>| fmdom (order_books tracker_BC)"
    and h7: "tracking_trading_pairs tracker_BC |\<subseteq>| fmdom (tracking_message_queues tracker_BC)"
    by (simp_all add: tracking_BC d)
  from refresh_tracking_tasks_converges [OF h1 h2 h3 h4 h5 h6 h7]
  obtain s' where "refresh_tracking_tasks sample_order (Returned directory_AB) tracker_BC = Normal s'"
    and "tracking_trading_pairs s' = fmdom directory_AB"
    by blast
  then have "tracking_trading_pairs
        (body_state (refresh_tracking_tasks sample_order (Returned directory_AB) tracker_BC))
      = {|''A'', ''B''|}"
    by (simp add: dom_AB)
  then show ?thesis using h1 h2 h3 h4 t d tracking_BC by simp
qed

text \<open>
  C is tracked and the directory does not list it: after the cycle its window of past
  diffs is still in \<^verbatim>\<open>_past_diffs_windows\<close>.
\<close>

theorem refresh_keeps_window_counterexample:
  "''C'' |\<in>| tracking_trading_pairs tracker_BC |-| fmdom directory_AB
   \<and> fmlookup (past_diffs_windows
        (body_state (refresh_tracking_tasks sample_order (Returned directory_AB) tracker_BC))) ''C''
      = Some [msg DIFF ''C'' 4]"
  by (simp add: del_AB refresh_BC) (simp add: tracker_BC_def)

section \<open>The trade emitter\<close>

text \<open>
  C4. For a Trade message of a trading pair that has an order book, with a price, an
  amount and a trade type in its payload, the event built has type \<open>SELL\<close> whatever the
  trade type flag is, and it is the event given to \<^verbatim>\<open>apply_trade\<close> of that book.
\<close>

theorem emit_trade_event_always_sell:
  assumes "fmlookup (order_books self) (trading_pair m) = Some ob"
    and "fmlookup (content m) ''price'' = Some p" and "float_of ext p = Inr price"
    and "fmlookup (content m) ''amount'' = Some a" and "float_of ext a = Inr amount"
    and "fmlookup (content m) ''trade_type'' = Some flag"
  shows "trade_event ext m
           = Inr \<lparr>ev_trading_pair = trading_pair m, ev_timestamp = timestamp m,
                  ev_price = price, ev_amount = amount, ev_type = SELL\<rparr>
         \<and> order_books (snd (final (emit_trade_event_loop ext now (Returned m) slept (loc, self))))
           = fmupd (trading_pair m)
               (snd (apply_trade ext ob
                  \<lparr>ev_trading_pair = trading_pair m, ev_timestamp = timestamp m,
                   ev_price = price, ev_amount = amount, ev_type = SELL\<rparr>))
               (order_books self)"
proof -
  have ev: "trade_event ext m
           = Inr \<lparr>ev_trading_pair = trading_pair m, ev_timestamp = timestamp m,
                  ev_price = price, ev_amount = amount, ev_type = SELL\<rparr>"
    using assms by (simp add: trade_event_def)
  show ?thesis
    using assms(1) ev 
    by (auto simp: emit_trade_event_loop_def emit_trade_event_loop_body_def loop_iteration_simps
        except_clauses_def logger2_def logger_def Let_def split: prod.splits option.splits awaited.splits)
qed

theorem emit_trade_event_always_sell_witness:
  "fmlookup (order_books tracker_B5) (trading_pair (msg TRADE ''B'' 0)) = Some (book 5)
   \<and> fmlookup (content (msg TRADE ''B'' 0)) ''price'' = Some 100
   \<and> float_of sample_externals 100 = Inr 100
   \<and> fmlookup (content (msg TRADE ''B'' 0)) ''amount'' = Some 3
   \<and> float_of sample_externals 3 = Inr 3
   \<and> fmlookup (content (msg TRADE ''B'' 0)) ''trade_type'' = Some 1
   \<and> \<not> eq_sell_value sample_externals 1
   \<and> fmlookup (order_books (snd (final (emit_trade_event_loop sample_externals 0
        (Returned (msg TRADE ''B'' 0)) (Returned ()) (counters0, tracker_B5))))) ''B''
      = Some ((book 5)\<lparr>sb_trades := [\<lparr>ev_trading_pair = ''B'', ev_timestamp = 0, ev_price = 100,
                                        ev_amount = 3, ev_type = SELL\<rparr>]\<rparr>)"
  using emit_trade_event_always_sell
     [where self = tracker_B5 and m = "msg TRADE ''B'' 0" and ob = "book 5" and p = 100
        and price = 100 and a = 3 and amount = 3 and flag = 1 and ext = sample_externals
        and now = 0 and slept = "Returned ()" and loc = counters0]
  by (simp add: fixture_defs)

section \<open>The worker\<close>

text \<open>
  C5. On a Snapshot message the worker calls \<^verbatim>\<open>restore_from_snapshot_and_diffs\<close> with
  the message and the whole window of past diffs, oldest first, and the window keeps all
  its entries.
\<close>

theorem track_single_book_snapshot:
  "type message = SNAPSHOT \<Longrightarrow>
     wk_order_book (final (track_single_book ext now (Returned message) slept w))
       = snd (restore_from_snapshot_and_diffs ext (wk_order_book w) message (past_diffs_window w))
     \<and> past_diffs_window (final (track_single_book ext now (Returned message) slept w))
       = past_diffs_window w"
  by (auto simp: track_single_book_def track_single_book_body_def loop_iteration_simps
        except_clauses_def wk_logger_def Let_def split: prod.splits option.splits awaited.splits)

theorem track_single_book_snapshot_witness:
  "type (msg SNAPSHOT ''B'' 6) = SNAPSHOT
   \<and> sb_applied (wk_order_book (final (track_single_book sample_externals 0
        (Returned (msg SNAPSHOT ''B'' 6)) (Returned ())
        (worker0\<lparr>past_diffs_window := [msg DIFF ''B'' 5, msg DIFF ''B'' 6, msg DIFF ''B'' 7]\<rparr>))))
      = [7]
   \<and> past_diffs_window (final (track_single_book sample_externals 0
        (Returned (msg SNAPSHOT ''B'' 6)) (Returned ())
        (worker0\<lparr>past_diffs_window := [msg DIFF ''B'' 5, msg DIFF ''B'' 6, msg DIFF ''B'' 7]\<rparr>)))
      = [msg DIFF ''B'' 5, msg DIFF ''B'' 6, msg DIFF ''B'' 7]"
  using track_single_book_snapshot
          [of "msg SNAPSHOT ''B'' 6" sample_externals 0 "Returned ()"
              "worker0\<lparr>past_diffs_window := [msg DIFF ''B'' 5, msg DIFF ''B'' 6, msg DIFF ''B'' 7]\<rparr>"]
  by (simp add: fixture_defs)

text \<open>
  C6. Whatever the worker receives, its window of past diffs never holds more than 32
  entries: it is the last 32 of the earlier window followed by the Diff messages
  processed, so after 32 or more processed messages it is exactly the 32 most recent.
\<close>

theorem past_diffs_window_bounded:
  assumes "length (past_diffs_window w) \<le> 32"
  shows "length (past_diffs_window (final (track_single_book_run ext inputs w))) \<le> 32
    \<and> past_diffs_window (final (track_single_book_run ext inputs w))
        = drop (length (past_diffs_window w @ processed_diffs ext inputs w) - 32)
            (past_diffs_window w @ processed_diffs ext inputs w)
    \<and> (32 \<le> length (processed_diffs ext inputs w) \<longrightarrow>
         past_diffs_window (final (track_single_book_run ext inputs w))
           = drop (length (processed_diffs ext inputs w) - 32) (processed_diffs ext inputs w))"
proof -
  have "past_diffs_window (final (track_single_book_run ext inputs w))
        = drop (length (past_diffs_window w @ processed_diffs ext inputs w) - 32)
            (past_diffs_window w @ processed_diffs ext inputs w)"
    using run_window [of w ext inputs] assms by (simp add: PAST_DIFF_WINDOW_SIZE_def)
  then show ?thesis by auto
qed

text \<open>
  The theorem on 33 Diff messages with update ids 1 to 33, a Diff message whose
  \<^verbatim>\<open>apply_diffs\<close> raises and a Snapshot message: the window holds the ids 2 to 33.
\<close>

theorem past_diffs_window_bounded_witness:
  "length (past_diffs_window worker0) \<le> 32
   \<and> map update_id (past_diffs_window (final (track_single_book_run sample_externals
        (diffs_1_to 33 @ [arrives (msg DIFF ''B'' (- 1)), arrives (msg SNAPSHOT ''B'' 40)])
        worker0)))
      = map int [2..<34]"
proof -
  let ?inputs = "diffs_1_to 33 @ [arrives (msg DIFF ''B'' (- 1)), arrives (msg SNAPSHOT ''B'' 40)]"
  let ?P = "processed_diffs sample_externals ?inputs worker0"
  have h: "length (past_diffs_window worker0) \<le> 32" by (simp add: worker0_def)
  have len: "length ?P = 33" using arg_cong [OF processed_33, of length] by simp
  from past_diffs_window_bounded [OF h, of sample_externals ?inputs]
  have "past_diffs_window (final (track_single_book_run sample_externals ?inputs worker0))
          = drop (length ?P - 32) ?P"
    using len by simp
  then have "map update_id (past_diffs_window (final
               (track_single_book_run sample_externals ?inputs worker0)))
          = drop 1 (map update_id ?P)"
    using len by (simp add: drop_map)
  then show ?thesis unfolding processed_33 using h by (simp add: upt_rec)
qed

section \<open>Readiness\<close>

text \<open>
  C7. \<open>ready\<close> holds exactly when there are at least as many order books as the data
  source lists trading pairs and there is at least one order book. It is false for an
  empty \<open>order_books\<close>, and with no trading pair listed (\<^verbatim>\<open>None\<close> or the empty list) one
  order book is enough.
\<close>

theorem ready_iff:
  "(ready ds self \<longleftrightarrow>
      length (or_empty (trading_pairs ds)) \<le> fcard (fmdom (order_books self))
      \<and> order_books self \<noteq> fmempty)
   \<and> (order_books self = fmempty \<longrightarrow> \<not> ready ds self)
   \<and> (or_empty (trading_pairs ds) = [] \<and> order_books self \<noteq> fmempty \<longrightarrow> ready ds self)"
proof -
  have pos: "0 < len_dict (order_books self) \<longleftrightarrow> order_books self \<noteq> fmempty"
    using len_dict_zero_iff [of "order_books self"] by auto
  show ?thesis
    unfolding ready_def Let_def pos by (auto simp: len_dict_def)
qed

theorem ready_iff_witness:
  "or_empty (trading_pairs \<lparr>trading_pairs = None\<rparr>) = []
   \<and> order_books tracker_B5 \<noteq> fmempty
   \<and> order_books (OrderBookTracker_init :: (sample_book, nat, nat) OrderBookTracker) = fmempty
   \<and> ready \<lparr>trading_pairs = None\<rparr> tracker_B5
   \<and> \<not> ready \<lparr>trading_pairs = Some [''A'', ''B'']\<rparr> tracker_B5
   \<and> \<not> ready \<lparr>trading_pairs = None\<rparr> (OrderBookTracker_init :: (sample_book, nat, nat) OrderBookTracker)"
  using ready_iff [of "\<lparr>trading_pairs = None\<rparr>" tracker_B5]
    ready_iff [of "\<lparr>trading_pairs = Some [''A'', ''B'']\<rparr>" tracker_B5]
    ready_iff [of "\<lparr>trading_pairs = None\<rparr>" "OrderBookTracker_init :: (sample_book, nat, nat) OrderBookTracker"]
  by (simp add: fixture_defs fcard_finsert_if fcard_fempty)

section \<open>The Snapshot router\<close>

text \<open>
  C8. The Snapshot router puts a message on the queue of its trading pair exactly when
  the pair has a queue, whatever the update id of the message; for a pair without a
  queue the tracker is left as it is, nothing is counted and nothing is logged.
\<close>

theorem order_book_snapshot_router_forwards:
  "(trading_pair m |\<in>| fmdom (tracking_message_queues self) \<longrightarrow>
      (\<exists>q. fmlookup (tracking_message_queues self) (trading_pair m) = Some q
         \<and> order_book_snapshot_router (Returned m) slept self
             = Continue (self\<lparr>tracking_message_queues :=
                  fmupd (trading_pair m) (q @ [m]) (tracking_message_queues self)\<rparr>)))
   \<and> (trading_pair m |\<notin>| fmdom (tracking_message_queues self) \<longrightarrow>
        order_book_snapshot_router (Returned m) slept self = Continue self)"
  by (auto simp: order_book_snapshot_router_def order_book_snapshot_router_body_def
        loop_iteration_simps Let_def fmlookup_dom_iff split: option.splits)

theorem order_book_snapshot_router_forwards_witness:
  "trading_pair (msg SNAPSHOT ''B'' 1) |\<in>| fmdom (tracking_message_queues tracker_B5)
   \<and> update_id (msg SNAPSHOT ''B'' 1) < snapshot_uid sample_externals (book 5)
   \<and> order_book_snapshot_router (Returned (msg SNAPSHOT ''B'' 1)) (Returned ()) tracker_B5
       = Continue (tracker_B5\<lparr>tracking_message_queues :=
                     fmupd ''B'' [msg SNAPSHOT ''B'' 1] fmempty\<rparr>)
   \<and> trading_pair (msg SNAPSHOT ''Z'' 9) |\<notin>| fmdom (tracking_message_queues tracker_B5)
   \<and> order_book_snapshot_router (Returned (msg SNAPSHOT ''Z'' 9)) (Returned ()) tracker_B5
       = Continue tracker_B5"
  using order_book_snapshot_router_forwards [of "msg SNAPSHOT ''B'' 1" tracker_B5 "Returned ()"]
    order_book_snapshot_router_forwards [of "msg SNAPSHOT ''Z'' 9" tracker_B5 "Returned ()"]
  by (simp add: fixture_defs)

section \<open>Cancellation\<close>

text \<open>
  C9. In each of the five loops a \<^verbatim>\<open>CancelledError\<close> thrown into an \<^verbatim>\<open>await\<close> of the
  \<^verbatim>\<open>try\<close> body ends the task with that exception, whatever the recovery sleep would
  deliver, and nothing is logged. An iteration that goes through the recovery path and
  continues has caught another exception. A \<^verbatim>\<open>CancelledError\<close> thrown into the recovery
  sleep, after another exception has been caught and logged, ends the task as well, in
  each of the five loops: with a cancelled sleep an iteration continues only when its
  \<^verbatim>\<open>try\<close> body ended normally.
\<close>

theorem cancellation_reraised:
  "order_book_diff_router ext now (Threw CancelledError) slept st = Terminated CancelledError st
   \<and> order_book_snapshot_router (Threw CancelledError) slept self = Terminated CancelledError self
   \<and> track_single_book ext now (Threw CancelledError) slept w = Terminated CancelledError w
   \<and> emit_trade_event_loop ext now (Threw CancelledError) slept st = Terminated CancelledError st
   \<and> refresh_tracking_loop iter_order (Threw CancelledError) slept_long slept self
       = Terminated CancelledError self
   \<and> (refresh_tracking_tasks iter_order got self = Normal s' \<longrightarrow>
        refresh_tracking_loop iter_order got (Threw CancelledError) slept self
          = Terminated CancelledError s')
   \<and> loop_iteration r lg slept (Raise CancelledError s) = Terminated CancelledError s
   \<and> (loop_iteration r lg slept (Raise e s) = Continue s'' \<longrightarrow>
        e \<noteq> CancelledError \<and> s'' = lg r s)
   \<and> (ez \<noteq> CancelledError \<and> is_Exception ez \<longrightarrow>
        loop_iteration r lg (Threw CancelledError) (Raise ez s)
          = Terminated CancelledError (lg r s))
   \<and> (loop_iteration r lg (Threw CancelledError) b = Continue s'' \<longrightarrow> b = Normal s'')
   \<and> (order_book_diff_router_body ext now gm st = Raise ea sta
          \<and> ea \<noteq> CancelledError \<and> is_Exception ea \<longrightarrow>
        order_book_diff_router ext now gm (Threw CancelledError) st
          = Terminated CancelledError (logger2 UnknownError sta))
   \<and> (order_book_snapshot_router_body gm self = Raise eb sb
          \<and> eb \<noteq> CancelledError \<and> is_Exception eb \<longrightarrow>
        order_book_snapshot_router gm (Threw CancelledError) self
          = Terminated CancelledError (logger UnknownError sb))
   \<and> (track_single_book_body ext now gm w = Raise ec wc
          \<and> ec \<noteq> CancelledError \<and> is_Exception ec \<longrightarrow>
        track_single_book ext now gm (Threw CancelledError) w
          = Terminated CancelledError (wk_logger UnknownError wc))
   \<and> (emit_trade_event_loop_body ext now gm st = Raise ed std
          \<and> ed \<noteq> CancelledError \<and> is_Exception ed \<longrightarrow>
        emit_trade_event_loop ext now gm (Threw CancelledError) st
          = Terminated CancelledError (logger2 UnexpectedErrorRouting std))
   \<and> (refresh_tracking_tasks iter_order got self = Raise ee se
          \<and> ee \<noteq> CancelledError \<and> is_Exception ee \<longrightarrow>
        refresh_tracking_loop iter_order got slept_long (Threw CancelledError) self
          = Terminated CancelledError (logger UnknownError se))"
proof -
  have body_cancel:
    "order_book_diff_router ext now (Threw CancelledError) slept st = Terminated CancelledError st
     \<and> order_book_snapshot_router (Threw CancelledError) slept self
         = Terminated CancelledError self
     \<and> track_single_book ext now (Threw CancelledError) slept w = Terminated CancelledError w
     \<and> emit_trade_event_loop ext now (Threw CancelledError) slept st
         = Terminated CancelledError st
     \<and> refresh_tracking_loop iter_order (Threw CancelledError) slept_long slept self
         = Terminated CancelledError self
     \<and> (refresh_tracking_tasks iter_order got self = Normal s' \<longrightarrow>
          refresh_tracking_loop iter_order got (Threw CancelledError) slept self
            = Terminated CancelledError s')"
    by (auto simp: order_book_diff_router_def order_book_diff_router_body_def
        order_book_snapshot_router_def order_book_snapshot_router_body_def
        track_single_book_def track_single_book_body_def
        emit_trade_event_loop_def emit_trade_event_loop_body_def
        refresh_tracking_loop_def refresh_tracking_tasks_def
        loop_iteration_simps except_clauses_def split: prod.splits)
  have handler:
    "loop_iteration r lg slept (Raise CancelledError s) = Terminated CancelledError s
     \<and> (loop_iteration r lg slept (Raise e s) = Continue s'' \<longrightarrow>
          e \<noteq> CancelledError \<and> s'' = lg r s)
     \<and> (ez \<noteq> CancelledError \<and> is_Exception ez \<longrightarrow>
          loop_iteration r lg (Threw CancelledError) (Raise ez s)
            = Terminated CancelledError (lg r s))
     \<and> (loop_iteration r lg (Threw CancelledError) b = Continue s'' \<longrightarrow> b = Normal s'')"
    by (cases b)
       (auto simp: loop_iteration_simps except_clauses_def split: if_splits awaited.splits)
  have sleep_cancel:
    "\<And>r lg e (s :: 'z). e \<noteq> CancelledError \<Longrightarrow> is_Exception e \<Longrightarrow>
       loop_iteration r lg (Threw CancelledError) (Raise e s)
         = Terminated CancelledError (lg r s)"
    by (simp add: loop_iteration_simps except_clauses_def)
  have loops:
    "(order_book_diff_router_body ext now gm st = Raise ea sta
          \<and> ea \<noteq> CancelledError \<and> is_Exception ea \<longrightarrow>
        order_book_diff_router ext now gm (Threw CancelledError) st
          = Terminated CancelledError (logger2 UnknownError sta))
     \<and> (order_book_snapshot_router_body gm self = Raise eb sb
          \<and> eb \<noteq> CancelledError \<and> is_Exception eb \<longrightarrow>
        order_book_snapshot_router gm (Threw CancelledError) self
          = Terminated CancelledError (logger UnknownError sb))
     \<and> (track_single_book_body ext now gm w = Raise ec wc
          \<and> ec \<noteq> CancelledError \<and> is_Exception ec \<longrightarrow>
        track_single_book ext now gm (Threw CancelledError) w
          = Terminated CancelledError (wk_logger UnknownError wc))
     \<and> (emit_trade_event_loop_body ext now gm st = Raise ed std
          \<and> ed \<noteq> CancelledError \<and> is_Exception ed \<longrightarrow>
        emit_trade_event_loop ext now gm (Threw CancelledError) st
          = Terminated CancelledError (logger2 UnexpectedErrorRouting std))"
    by (simp add: order_book_diff_router_def order_book_snapshot_router_def
          track_single_book_def emit_trade_event_loop_def loop_iteration_simps
          except_clauses_def)
  have refresher:
    "refresh_tracking_tasks iter_order got self = Raise ee se
          \<and> ee \<noteq> CancelledError \<and> is_Exception ee \<longrightarrow>
        refresh_tracking_loop iter_order got slept_long (Threw CancelledError) self
          = Terminated CancelledError (logger UnknownError se)"
    by (simp add: refresh_tracking_loop_def loop_iteration_simps except_clauses_def)
  from body_cancel handler loops refresher show ?thesis by simp
qed

text \<open>
  The theorem at a cancellation during the hour-long sleep of the refresher, at a
  \<^verbatim>\<open>KeyError\<close> that the worker's handler recovers from, and, in each loop, at an exception
  in the \<^verbatim>\<open>try\<close> body followed by a cancellation of the recovery sleep: a Diff message
  for a pair with a queue and no order book, a failing \<^verbatim>\<open>get\<close>, an \<^verbatim>\<open>apply_diffs\<close> that
  raises, a Trade message without a price, and a failing directory.
\<close>

theorem cancellation_reraised_witness:
  "refresh_tracking_tasks sample_order (Returned directory_AB) tracker_BC
     = Normal (body_state (refresh_tracking_tasks sample_order (Returned directory_AB) tracker_BC))
   \<and> refresh_tracking_loop sample_order (Returned directory_AB) (Threw CancelledError)
        (Returned ()) tracker_BC
      = Terminated CancelledError
          (body_state (refresh_tracking_tasks sample_order (Returned directory_AB) tracker_BC))
   \<and> log (body_state (refresh_tracking_tasks sample_order (Returned directory_AB) tracker_BC))
      = [StartedTracking ''A'', StoppedTracking ''C'']
   \<and> track_single_book sample_externals 0 (Threw CancelledError) (Returned ()) worker0
      = Terminated CancelledError worker0
   \<and> loop_iteration UnknownError wk_logger (Returned ()) (Raise (KeyError ''B'') worker0)
      = Continue (wk_logger UnknownError worker0)
   \<and> KeyError ''B'' \<noteq> CancelledError \<and> is_Exception (KeyError ''B'')
   \<and> loop_iteration UnknownError wk_logger (Threw CancelledError) (Raise (KeyError ''B'') worker0)
      = Terminated CancelledError (wk_logger UnknownError worker0)
   \<and> track_single_book_body sample_externals 0 (Returned (msg DIFF ''B'' (- 1))) worker0
      = Raise (OtherException ''ValueError'') worker0
   \<and> is_Exception (OtherException ''ValueError'')
   \<and> track_single_book sample_externals 0 (Returned (msg DIFF ''B'' (- 1)))
        (Threw CancelledError) worker0
      = Terminated CancelledError (wk_logger UnknownError worker0)
   \<and> order_book_diff_router_body sample_externals 0 (Returned (msg DIFF ''B'' 6))
        (counters0, tracker_B5\<lparr>order_books := fmempty\<rparr>)
      = Raise (KeyError ''B'') (counters0, tracker_B5\<lparr>order_books := fmempty\<rparr>)
   \<and> order_book_diff_router sample_externals 0 (Returned (msg DIFF ''B'' 6))
        (Threw CancelledError) (counters0, tracker_B5\<lparr>order_books := fmempty\<rparr>)
      = Terminated CancelledError
          (logger2 UnknownError (counters0, tracker_B5\<lparr>order_books := fmempty\<rparr>))
   \<and> order_book_snapshot_router_body (Threw (OtherException ''closed'')) tracker_B5
      = Raise (OtherException ''closed'') tracker_B5
   \<and> is_Exception (OtherException ''closed'')
   \<and> order_book_snapshot_router (Threw (OtherException ''closed'')) (Threw CancelledError)
        tracker_B5
      = Terminated CancelledError (logger UnknownError tracker_B5)
   \<and> refresh_tracking_tasks sample_order (Threw (OtherException ''network'')) tracker_B5
      = Raise (OtherException ''network'') tracker_B5
   \<and> is_Exception (OtherException ''network'')
   \<and> refresh_tracking_loop sample_order (Threw (OtherException ''network'')) (Returned ())
        (Threw CancelledError) tracker_B5
      = Terminated CancelledError (logger UnknownError tracker_B5)
   \<and> emit_trade_event_loop_body sample_externals 0
        (Returned ((msg TRADE ''B'' 0)\<lparr>content := fmempty\<rparr>)) (counters0, tracker_B5)
      = Raise (KeyError ''price'') (counters0, tracker_B5)
   \<and> is_Exception (KeyError ''price'')
   \<and> emit_trade_event_loop sample_externals 0
        (Returned ((msg TRADE ''B'' 0)\<lparr>content := fmempty\<rparr>)) (Threw CancelledError)
        (counters0, tracker_B5)
      = Terminated CancelledError (logger2 UnexpectedErrorRouting (counters0, tracker_B5))"
proof -
  have body_w: "track_single_book_body sample_externals 0 (Returned (msg DIFF ''B'' (- 1))) worker0
      = Raise (OtherException ''ValueError'') worker0"
    by (simp add: track_single_book_body_def fixture_defs)
  have body_d: "order_book_diff_router_body sample_externals 0 (Returned (msg DIFF ''B'' 6))
        (counters0, tracker_B5\<lparr>order_books := fmempty\<rparr>)
      = Raise (KeyError ''B'') (counters0, tracker_B5\<lparr>order_books := fmempty\<rparr>)"
    by (simp add: order_book_diff_router_body_def Let_def fixture_defs)
  have body_s: "order_book_snapshot_router_body (Threw (OtherException ''closed'')) tracker_B5
      = Raise (OtherException ''closed'') tracker_B5"
    by (simp add: order_book_snapshot_router_body_def)
  have body_r: "refresh_tracking_tasks sample_order (Threw (OtherException ''network'')) tracker_B5
      = Raise (OtherException ''network'') tracker_B5"
    by (simp add: refresh_tracking_tasks_def)
  have body_e: "emit_trade_event_loop_body sample_externals 0
        (Returned ((msg TRADE ''B'' 0)\<lparr>content := fmempty\<rparr>)) (counters0, tracker_B5)
      = Raise (KeyError ''price'') (counters0, tracker_B5)"
    by (simp add: emit_trade_event_loop_body_def trade_event_def Let_def fixture_defs)
  have handler: "loop_iteration UnknownError wk_logger (Returned ()) (Raise (KeyError ''B'') worker0)
      = Continue (wk_logger UnknownError worker0)"
    by (simp add: loop_iteration_simps except_clauses_def)
  have p1: "refresh_tracking_tasks sample_order (Returned directory_AB) tracker_BC
     = Normal (body_state (refresh_tracking_tasks sample_order (Returned directory_AB) tracker_BC))
   \<and> refresh_tracking_loop sample_order (Returned directory_AB) (Threw CancelledError)
        (Returned ()) tracker_BC
      = Terminated CancelledError
          (body_state (refresh_tracking_tasks sample_order (Returned directory_AB) tracker_BC))
   \<and> log (body_state (refresh_tracking_tasks sample_order (Returned directory_AB) tracker_BC))
      = [StartedTracking ''A'', StoppedTracking ''C'']
   \<and> track_single_book sample_externals 0 (Threw CancelledError) (Returned ()) worker0
      = Terminated CancelledError worker0
   \<and> loop_iteration UnknownError wk_logger (Returned ()) (Raise (KeyError ''B'') worker0)
      = Continue (wk_logger UnknownError worker0)"
    and p2: "KeyError ''B'' \<noteq> CancelledError \<and> is_Exception (KeyError ''B'')
   \<and> loop_iteration UnknownError wk_logger (Threw CancelledError) (Raise (KeyError ''B'') worker0)
      = Terminated CancelledError (wk_logger UnknownError worker0)
   \<and> track_single_book_body sample_externals 0 (Returned (msg DIFF ''B'' (- 1))) worker0
      = Raise (OtherException ''ValueError'') worker0
   \<and> is_Exception (OtherException ''ValueError'')
   \<and> track_single_book sample_externals 0 (Returned (msg DIFF ''B'' (- 1)))
        (Threw CancelledError) worker0
      = Terminated CancelledError (wk_logger UnknownError worker0)"
    using cancellation_reraised
       [where iter_order = sample_order and got = "Returned directory_AB" and self = tracker_BC
          and s' = "body_state (refresh_tracking_tasks sample_order (Returned directory_AB) tracker_BC)" and slept = "Returned ()" and ext = sample_externals
          and now = 0 and w = worker0 and st = "(counters0, tracker_B5)"
          and slept_long = "Returned ()" and r = UnknownError and lg = wk_logger
          and s = worker0 and e = "KeyError ''B''" and s'' = "wk_logger UnknownError worker0"
          and ez = "KeyError ''B''" and b = "Raise (KeyError ''B'') worker0" and gm = "Returned (msg DIFF ''B'' (- 1))"
          and ea = "OtherException ''x''" and sta = "(counters0, tracker_B5)" and eb = "OtherException ''x''"
          and sb = tracker_BC and ec = "OtherException ''ValueError''" and wc = worker0
          and ed = "OtherException ''x''" and std = "(counters0, tracker_B5)" and ee = "OtherException ''x''"
          and se = tracker_BC]
      refresh_BC_Normal body_w handler
    by (simp_all add: refresh_BC)
  have p3: "order_book_diff_router_body sample_externals 0 (Returned (msg DIFF ''B'' 6))
        (counters0, tracker_B5\<lparr>order_books := fmempty\<rparr>)
      = Raise (KeyError ''B'') (counters0, tracker_B5\<lparr>order_books := fmempty\<rparr>)
   \<and> order_book_diff_router sample_externals 0 (Returned (msg DIFF ''B'' 6))
        (Threw CancelledError) (counters0, tracker_B5\<lparr>order_books := fmempty\<rparr>)
      = Terminated CancelledError
          (logger2 UnknownError (counters0, tracker_B5\<lparr>order_books := fmempty\<rparr>))"
    using cancellation_reraised
       [where iter_order = sample_order and got = "Returned directory_AB" and self = tracker_BC
          and s' = "body_state (refresh_tracking_tasks sample_order (Returned directory_AB) tracker_BC)" and slept = "Returned ()" and ext = sample_externals
          and now = 0 and w = worker0 and st = "(counters0, tracker_B5\<lparr>order_books := fmempty\<rparr>)"
          and slept_long = "Returned ()" and r = UnknownError and lg = wk_logger
          and s = worker0 and e = "KeyError ''B''" and s'' = "wk_logger UnknownError worker0"
          and ez = "KeyError ''B''" and b = "Raise (KeyError ''B'') worker0" and gm = "Returned (msg DIFF ''B'' 6)"
          and ea = "KeyError ''B''" and sta = "(counters0, tracker_B5\<lparr>order_books := fmempty\<rparr>)" and eb = "OtherException ''x''"
          and sb = tracker_BC and ec = "OtherException ''ValueError''" and wc = worker0
          and ed = "OtherException ''x''" and std = "(counters0, tracker_B5)" and ee = "OtherException ''x''"
          and se = tracker_BC]
      body_d
    by simp
  have p4: "order_book_snapshot_router_body (Threw (OtherException ''closed'')) tracker_B5
      = Raise (OtherException ''closed'') tracker_B5
   \<and> is_Exception (OtherException ''closed'')
   \<and> order_book_snapshot_router (Threw (OtherException ''closed'')) (Threw CancelledError)
        tracker_B5
      = Terminated CancelledError (logger UnknownError tracker_B5)
   \<and> refresh_tracking_tasks sample_order (Threw (OtherException ''network'')) tracker_B5
      = Raise (OtherException ''network'') tracker_B5
   \<and> is_Exception (OtherException ''network'')
   \<and> refresh_tracking_loop sample_order (Threw (OtherException ''network'')) (Returned ())
        (Threw CancelledError) tracker_B5
      = Terminated CancelledError (logger UnknownError tracker_B5)"
    using cancellation_reraised
       [where iter_order = sample_order and got = "Threw (OtherException ''network'')" and self = tracker_B5
          and s' = tracker_B5 and slept = "Returned ()" and ext = sample_externals
          and now = 0 and w = worker0 and st = "(counters0, tracker_B5)"
          and slept_long = "Returned ()" and r = UnknownError and lg = wk_logger
          and s = worker0 and e = "KeyError ''B''" and s'' = "wk_logger UnknownError worker0"
          and ez = "KeyError ''B''" and b = "Raise (KeyError ''B'') worker0" and gm = "Threw (OtherException ''closed'')"
          and ea = "OtherException ''x''" and sta = "(counters0, tracker_B5)" and eb = "OtherException ''closed''"
          and sb = tracker_B5 and ec = "OtherException ''ValueError''" and wc = worker0
          and ed = "OtherException ''x''" and std = "(counters0, tracker_B5)" and ee = "OtherException ''network''"
          and se = tracker_B5]
      body_s body_r
    by simp
  have p5: "emit_trade_event_loop_body sample_externals 0
        (Returned ((msg TRADE ''B'' 0)\<lparr>content := fmempty\<rparr>)) (counters0, tracker_B5)
      = Raise (KeyError ''price'') (counters0, tracker_B5)
   \<and> is_Exception (KeyError ''price'')
   \<and> emit_trade_event_loop sample_externals 0
        (Returned ((msg TRADE ''B'' 0)\<lparr>content := fmempty\<rparr>)) (Threw CancelledError)
        (counters0, tracker_B5)
      = Terminated CancelledError (logger2 UnexpectedErrorRouting (counters0, tracker_B5))"
    using cancellation_reraised
       [where iter_order = sample_order and got = "Returned directory_AB" and self = tracker_BC
          and s' = "body_state (refresh_tracking_tasks sample_order (Returned directory_AB) tracker_BC)" and slept = "Returned ()" and ext = sample_externals
          and now = 0 and w = worker0 and st = "(counters0, tracker_B5)"
          and slept_long = "Returned ()" and r = UnknownError and lg = wk_logger
          and s = worker0 and e = "KeyError ''B''" and s'' = "wk_logger UnknownError worker0"
          and ez = "KeyError ''B''" and b = "Raise (KeyError ''B'') worker0" and gm = "Returned ((msg TRADE ''B'' 0)\<lparr>content := fmempty\<rparr>)"
          and ea = "OtherException ''x''" and sta = "(counters0, tracker_B5)" and eb = "OtherException ''x''"
          and sb = tracker_BC and ec = "OtherException ''ValueError''" and wc = worker0
          and ed = "KeyError ''price''" and std = "(counters0, tracker_B5)" and ee = "OtherException ''x''"
          and se = tracker_BC]
      body_e
    by simp
  from p1 p2 p3 p4 p5 show ?thesis by (intro conjI) simp_all
qed

section \<open>Messages the worker ignores\<close>

text \<open>
  C10. A message that is neither a Diff nor a Snapshot leaves the worker as it was: the
  order book, the window of past diffs, the counter and the log are unchanged, and the
  loop goes on.
\<close>

theorem track_single_book_ignores_other_types:
  "type message \<noteq> DIFF \<Longrightarrow> type message \<noteq> SNAPSHOT
   \<Longrightarrow> track_single_book ext now (Returned message) slept w = Continue w"
  by (simp add: track_single_book_def track_single_book_body_def loop_iteration_simps)

theorem track_single_book_ignores_other_types_witness:
  "type (msg TRADE ''B'' 9) \<noteq> DIFF \<and> type (msg TRADE ''B'' 9) \<noteq> SNAPSHOT
   \<and> track_single_book sample_externals 0 (Returned (msg TRADE ''B'' 9)) (Returned ()) worker0
       = Continue worker0"
  using track_single_book_ignores_other_types
          [of "msg TRADE ''B'' 9" sample_externals 0 "Returned ()" worker0]
  by (simp add: msg_def)

end
